theory Spec2Isabelle
  imports Main "HOL-Library.Word" "HOL-Library.Signed_Division" "HOL-Library.AList"
begin

section \<open>Machine integers, byte strings and identifiers\<close>

text \<open>
  Go's \<open>int64\<close> and \<open>uint64\<close> are both 64-bit words; the conversion \<open>int64(x)\<close> of a
  \<open>uint64\<close> keeps the bit pattern. Signed comparisons are \<open><s\<close> and \<open>\<le>s\<close>, the signed value
  of a word is \<open>sint\<close>, the unsigned one \<open>unat\<close>/\<open>uint\<close>. \<open>bc.Hash\<close> and \<open>bc.AssetID\<close> are
  32-byte values compared with \<open>==\<close>.
\<close>

type_synonym i64 = "64 word"
type_synonym u64 = "64 word"
type_synonym u32 = "32 word"
type_synonym byte = "8 word"
type_synonym bytes = "byte list"
type_synonym Hash = "256 word"
type_synonym AssetID = "256 word"

definition MaxInt64 :: int where
  "MaxInt64 = 2 ^ 63 - 1"

definition MinInt64 :: int where
  "MinInt64 = - (2 ^ 63)"

definition inInt64 :: "int \<Rightarrow> bool" where
  "inInt64 k = (MinInt64 \<le> k \<and> k \<le> MaxInt64)"

section \<open>Errors\<close>

text \<open>
  The sentinel errors of the validation package, the two of package \<open>bc\<close> it wraps, and one
  constructor for every anonymous \<open>errors.New\<close>/\<open>fmt.Errorf\<close> of the code.
  \<open>errors.Wrap\<close>, \<open>errors.Wrapf\<close>, \<open>errors.WithDetailf\<close> and \<open>errors.Sub\<close> keep the
  root error and only add text, so the model returns the root. \<open>External n\<close> is an error
  handed back by a collaborator outside this package. A Go \<open>error\<close> is an \<open>error option\<close>:
  \<open>None\<close> is \<open>nil\<close>.
\<close>

datatype error =
    ErrTxVersion
  | ErrWrongTransactionSize
  | ErrBadTimeRange
  | ErrNotStandardTx
  | ErrWrongCoinbaseTransaction
  | ErrWrongCoinbaseAsset
  | ErrCoinbaseArbitraryOversize
  | ErrEmptyResults
  | ErrMismatchedAssetID
  | ErrMismatchedPosition
  | ErrMismatchedReference
  | ErrMismatchedValue
  | ErrMissingField
  | ErrNoSource
  | ErrOverflow
  | ErrPosition
  | ErrUnbalanced
  | ErrOverGasCredit
  | ErrGasCalculate
  | ErrMissingEntry
  | ErrEntryType
  | ErrUnexpectedEntryType
  | ErrPeginNoWitness
  | ErrPeginWitnessIsError
  | ErrAmountOutOfRange
  | ErrMerkleblockValidationFailed
  | ErrNoutValueMismatch
  | ErrControlProgramMismatch
  | ErrParentGenesisBlockHash
  | ErrEmptyAssetAmount
  | External nat

text \<open>
  A run-time panic (nil pointer dereference, index out of range) ends the whole call chain
  and hands nothing back; a normal return hands back its value.
\<close>

datatype 'a res = Panic | Ret 'a

section \<open>Checked arithmetic\<close>

text \<open>
  Modelled from the spec: package \<open>math/checked\<close> is not among the sources. The spec calls
  its functions checked addition, subtraction, multiplication and division on \<open>int64\<close>: the
  exact result with \<open>ok = true\<close> when it is representable, \<open>ok = false\<close> on overflow (and
  on division by zero). The value handed back beside \<open>ok = false\<close> is taken to be Go's zero
  value. Go's \<open>/\<close> truncates towards zero, which is \<open>sdiv\<close> on \<open>int\<close>.
\<close>

definition AddInt64 :: "i64 \<Rightarrow> i64 \<Rightarrow> i64 \<times> bool" where
  "AddInt64 a b = (if inInt64 (sint a + sint b) then (a + b, True) else (0, False))"

definition SubInt64 :: "i64 \<Rightarrow> i64 \<Rightarrow> i64 \<times> bool" where
  "SubInt64 a b = (if inInt64 (sint a - sint b) then (a - b, True) else (0, False))"

definition MulInt64 :: "i64 \<Rightarrow> i64 \<Rightarrow> i64 \<times> bool" where
  "MulInt64 a b = (if inInt64 (sint a * sint b) then (a * b, True) else (0, False))"

definition DivInt64 :: "i64 \<Rightarrow> i64 \<Rightarrow> i64 \<times> bool" where
  "DivInt64 a b =
     (if b = 0 \<or> \<not> inInt64 (sint a sdiv sint b) then (0, False)
      else (word_of_int (sint a sdiv sint b), True))"

section \<open>Consensus parameters\<close>

text \<open>
  Package \<open>consensus\<close> is not among the sources; its constants are parameters of the model.
\<close>

record consensus =
  VMGasRate :: i64
  MaxGasAmount :: i64
  StorageGasRate :: i64
  DefaultGasCredit :: i64
  CoinbaseArbitrarySizeLimit :: int
  BTMAssetID :: AssetID

section \<open>The gas meter\<close>

record GasState =
  BTMValue :: u64
  GasLeft :: i64
  GasUsed :: i64
  GasValid :: bool
  StorageGas :: i64

text \<open>
  The methods mutate the receiver, also on the paths that return an error; the model hands
  back the error and the receiver as it is at the return.
\<close>

definition setGas :: "consensus \<Rightarrow> GasState \<Rightarrow> i64 \<Rightarrow> i64 \<Rightarrow> error option \<times> GasState" where
  "setGas c g btm txSize =
     (if btm <s 0 then (Some ErrGasCalculate, g)
      else
        let g1 = g\<lparr>BTMValue := btm\<rparr>;
            d = DivInt64 btm (VMGasRate c);
            g2 = g1\<lparr>GasLeft := fst d\<rparr>
        in if \<not> snd d then (Some ErrGasCalculate, g2)
           else
             let g3 = (if MaxGasAmount c <s GasLeft g2 then g2\<lparr>GasLeft := MaxGasAmount c\<rparr> else g2);
                 m = MulInt64 txSize (StorageGasRate c);
                 g4 = g3\<lparr>StorageGas := fst m\<rparr>
             in if \<not> snd m then (Some ErrGasCalculate, g4) else (None, g4))"

definition setGasValid :: "GasState \<Rightarrow> error option \<times> GasState" where
  "setGasValid g =
     (let d = SubInt64 (GasLeft g) (StorageGas g);
          g1 = g\<lparr>GasLeft := fst d\<rparr>
      in if \<not> snd d \<or> GasLeft g1 <s 0 then (Some ErrGasCalculate, g1)
         else
           let a = AddInt64 (GasUsed g1) (StorageGas g1);
               g2 = g1\<lparr>GasUsed := fst a\<rparr>
           in if \<not> snd a then (Some ErrGasCalculate, g2)
              else (None, g2\<lparr>GasValid := True\<rparr>))"

definition updateUsage :: "consensus \<Rightarrow> GasState \<Rightarrow> i64 \<Rightarrow> error option \<times> GasState" where
  "updateUsage c g gasLeft =
     (if gasLeft <s 0 then (Some ErrGasCalculate, g)
      else
        let d = SubInt64 (GasLeft g) gasLeft
        in if \<not> snd d then (Some ErrGasCalculate, g)
           else
             let g1 = g\<lparr>GasUsed := GasUsed g + fst d, GasLeft := gasLeft\<rparr>
             in if \<not> GasValid g1 \<and> (DefaultGasCredit c <s GasUsed g1 \<or> GasLeft g1 <s StorageGas g1)
                then (Some ErrOverGasCredit, g1)
                else (None, g1))"

section \<open>The entry graph\<close>

text \<open>
  Package \<open>bc\<close> declares the entry types; the records keep the fields the validator reads.
  A Go pointer field is an \<open>option\<close> (\<open>None\<close> is \<open>nil\<close>), a slice of pointers a list of
  options. A byte slice that the code tests against \<open>nil\<close> is a \<open>bytes option\<close>.
\<close>

record AssetAmount =
  AssetId :: "AssetID option"
  Amount :: u64

record ValueSource =
  src_Ref :: "Hash option"
  src_Value :: "AssetAmount option"
  src_Position :: u64

record ValueDestination =
  dst_Ref :: "Hash option"
  dst_Value :: "AssetAmount option"
  dst_Position :: u64

record Program =
  VmVersion :: u64
  Code :: bytes

record AssetDefinition =
  ad_Data :: "Hash option"
  IssuanceProgram :: "Program option"

record TxHeader =
  Version :: u64
  SerializedSize :: u64
  Data :: "Hash option"
  TimeRange :: u64
  ResultIds :: "Hash option list"
  Side :: bool

definition NewTxHeader :: "u64 \<Rightarrow> u64 \<Rightarrow> Hash option \<Rightarrow> u64 \<Rightarrow> Hash option list \<Rightarrow> bool \<Rightarrow> TxHeader" where
  "NewTxHeader version serializedSize data timeRange resultIDs side =
     \<lparr>Version = version, SerializedSize = serializedSize, Data = data, TimeRange = timeRange,
      ResultIds = resultIDs, Side = side\<rparr>"

record Mux =
  Sources :: "ValueSource option list"
  WitnessDestinations :: "ValueDestination option list"

record Output =
  out_Source :: "ValueSource option"
  out_ControlProgram :: "Program option"
  out_Ordinal :: u64

record Retirement =
  ret_Source :: "ValueSource option"

record Issuance =
  iss_Value :: "AssetAmount option"
  iss_WitnessAssetDefinition :: "AssetDefinition option"
  iss_WitnessArguments :: "bytes list"
  iss_WitnessDestination :: "ValueDestination option"

record Spend =
  sp_SpentOutputId :: "Hash option"
  sp_WitnessArguments :: "bytes list"
  sp_WitnessDestination :: "ValueDestination option"

record Coinbase =
  cb_WitnessDestination :: "ValueDestination option"
  cb_Arbitrary :: "bytes option"

record Claim =
  cl_SpentOutputId :: "Hash option"
  cl_WitnessArguments :: "bytes list"
  cl_WitnessDestination :: "ValueDestination option"
  cl_Peginwitness :: "bytes option list"

record Dpos =
  dp_WitnessDestination :: "ValueDestination option"

text \<open>
  \<open>bc.Entry\<close> is an interface; the type switches of the validator name nine implementations.
  \<open>EOther\<close> is any other value of the interface: \<open>nil\<close> (what a Go map hands back for a
  missing key) or an entry of a type outside the switch.
\<close>

datatype Entry =
    ETxHeader TxHeader
  | EMux Mux
  | EOutput Output
  | ERetirement Retirement
  | EIssuance Issuance
  | ESpend Spend
  | ECoinbase Coinbase
  | EClaim Claim
  | EDpos Dpos
  | EOther

text \<open>
  A \<open>*bc.Tx\<close> is compared by pointer in the coinbase rule, so the transaction carries the
  address of its object (\<open>tx_ptr\<close>) and a block lists the addresses of its transactions.
  \<open>tx.SerializedSize\<close> is the field of the embedded header.
\<close>

record Tx =
  tx_ptr :: nat
  tx_TxHeader :: TxHeader
  ID :: Hash
  Entries :: "Hash \<rightharpoonup> Entry"
  GasInputIDs :: "Hash list"

record Block =
  Transactions :: "nat list"

text \<open>
  \<open>validationState\<close> is copied at every descent (\<open>vs2 := *vs\<close>); the copy shares the gas
  meter (a pointer) and the cache (a map). The record holds the fields that are copied, the
  record \<open>shared\<close> the two objects every copy refers to.
\<close>

record validationState =
  block :: "Block option"
  tx :: Tx
  entryID :: Hash
  sourcePos :: u64
  destPos :: u64

record shared =
  gasStatus :: GasState
  cache :: "Hash \<rightharpoonup> error option"

section \<open>The peg-in witness\<close>

record RawTxOutput =
  ro_Amount :: u64
  ro_ControlProgram :: bytes

record RawTx =
  rt_Outputs :: "RawTxOutput option list"

record BlockHeader =
  Height :: u64
  TransactionsMerkleRoot :: Hash

record MerkleBlock =
  mb_BlockHeader :: bytes
  TxHashes :: "Hash option list"
  StatusHashes :: "Hash option list"
  Flags :: "u32 list"
  MatchedTxIDs :: "Hash option list"

section \<open>Collaborators\<close>

text \<open>
  Functions and settings of other packages that the validator calls and whose code is not
  among the sources. They are parameters: every theorem below holds for all of them.
  \<^item> \<open>EntryID\<close>: \<open>bc.EntryID\<close>, the content hash of an entry.
  \<^item> \<open>mapOrder\<close>: the order in which \<open>range\<close> visits the entries of the \<open>parity\<close> map; Go
    leaves it unspecified.
  \<^item> \<open>nilHashBytesPanics\<close>: whether \<open>Bytes()\<close> called on a nil \<open>*bc.Hash\<close> panics (the
    mismatched-reference messages call it).
  \<^item> \<open>ComputeAssetID\<close>, \<open>vmVerify\<close> (\<open>vm.Verify\<close> on \<open>NewTxVMContext\<close>), \<open>txOutput\<close>
    (\<open>tx.Output\<close>).
  \<^item> For the peg-in witness: \<open>strconv.ParseUint\<close> with base 10 and 64 bits,
    \<open>consensus.MoneyRange\<close>, the three decoders, \<open>types.ValidateTxMerkleTreeProof\<close>,
    \<open>pegin_contract.GetPeginContractPrograms\<close>, \<open>crypto.Sha256\<close>, \<open>vmutil.P2WSHProgram\<close>,
    \<open>HashText\<close> (\<open>UnmarshalText\<close> followed by \<open>String\<close> on a \<open>bc.Hash\<close>), the configured
    parent genesis hash and minimum depth, \<open>util.ValidatePegin\<close> and
    \<open>util.IsConfirmedBytomBlock\<close>.
\<close>

record env =
  cons :: consensus
  EntryID :: "Entry \<Rightarrow> Hash"
  mapOrder :: "(AssetID \<times> i64) list \<Rightarrow> (AssetID \<times> i64) list"
  nilHashBytesPanics :: bool
  ComputeAssetID :: "AssetDefinition option \<Rightarrow> AssetID res"
  vmVerify :: "validationState \<Rightarrow> Entry \<Rightarrow> Program option \<Rightarrow> bytes list \<Rightarrow> i64 \<Rightarrow> error + i64"
  txOutput :: "Tx \<Rightarrow> Hash \<Rightarrow> error + Output"
  ParseUint :: "bytes \<Rightarrow> error + u64"
  MoneyRange :: "u64 \<Rightarrow> bool"
  TxUnmarshalText :: "bytes \<Rightarrow> error + RawTx"
  jsonUnmarshal :: "bytes \<Rightarrow> error + MerkleBlock"
  HeaderUnmarshalText :: "bytes \<Rightarrow> error + BlockHeader"
  ValidateTxMerkleTreeProof :: "Hash option list \<Rightarrow> byte list \<Rightarrow> Hash option list \<Rightarrow> Hash \<Rightarrow> bool"
  GetPeginContractPrograms :: "bytes \<Rightarrow> error + bytes"
  Sha256 :: "bytes \<Rightarrow> bytes"
  P2WSHProgram :: "bytes \<Rightarrow> error + bytes"
  HashText :: "bytes \<Rightarrow> string"
  ParentGenesisBlockHash :: string
  PeginMinDepth :: u64
  ValidatePegin :: bool
  IsConfirmedBytomBlock :: "u64 \<Rightarrow> u64 \<Rightarrow> error option"

section \<open>Reference integrity: destinations\<close>

text \<open>
  Modelled from the spec: the method \<open>Equal\<close> of \<open>bc.AssetAmount\<close> is not among the sources.
  The spec asks for an identical asset and amount; the callers treat an error of \<open>Equal\<close> as
  a missing field, so an absent amount or asset id is the error case (\<open>None\<close>).
\<close>

definition Equal :: "AssetAmount option \<Rightarrow> AssetAmount option \<Rightarrow> bool option" where
  "Equal a b =
     (case (a, b) of
        (Some x, Some y) \<Rightarrow>
          (case (AssetId x, AssetId y) of
             (Some i, Some j) \<Rightarrow> Some (Amount x = Amount y \<and> i = j)
           | _ \<Rightarrow> None)
      | _ \<Rightarrow> None)"

text \<open>The type switch of \<open>checkValidDest\<close>: the source that a destination points at.\<close>

definition destSource :: "Entry \<Rightarrow> u64 \<Rightarrow> error + ValueSource option" where
  "destSource e pos =
     (case e of
        EOutput ref \<Rightarrow> if pos \<noteq> 0 then Inl ErrPosition else Inr (out_Source ref)
      | ERetirement ref \<Rightarrow> if pos \<noteq> 0 then Inl ErrPosition else Inr (ret_Source ref)
      | EMux ref \<Rightarrow>
          if unat pos \<ge> length (Sources ref) then Inl ErrPosition
          else Inr (Sources ref ! unat pos)
      | _ \<Rightarrow> Inl ErrEntryType)"

definition checkValidDest :: "env \<Rightarrow> validationState \<Rightarrow> ValueDestination option \<Rightarrow> error option res" where
  "checkValidDest env vs vd0 =
     (case vd0 of
        None \<Rightarrow> Ret (Some ErrMissingField)
      | Some vd \<Rightarrow>
     (case dst_Ref vd of
        None \<Rightarrow> Ret (Some ErrMissingField)
      | Some ref \<Rightarrow>
     (if (case dst_Value vd of None \<Rightarrow> True | Some v \<Rightarrow> AssetId v = None)
      then Ret (Some ErrMissingField)
      else
     (case Entries (tx vs) ref of
        None \<Rightarrow> Ret (Some ErrMissingEntry)
      | Some e \<Rightarrow>
     (case destSource e (dst_Position vd) of
        Inl err \<Rightarrow> Ret (Some err)
      | Inr None \<Rightarrow> Panic
      | Inr (Some src) \<Rightarrow>
          if src_Ref src = None then
            (if nilHashBytesPanics env then Panic else Ret (Some ErrMismatchedReference))
          else if src_Ref src \<noteq> Some (entryID vs) then Ret (Some ErrMismatchedReference)
          else if src_Position src \<noteq> destPos vs then Ret (Some ErrMismatchedPosition)
          else
            (case Equal (src_Value src) (dst_Value vd) of
               None \<Rightarrow> Ret (Some ErrMissingField)
             | Some eq \<Rightarrow> if \<not> eq then Ret (Some ErrMismatchedValue) else Ret None))))))"

section \<open>Reference integrity: sources\<close>

text \<open>
  \<open>checkValidSrc\<close> and \<open>checkValid\<close> call each other. The functions of this section take the
  recursive call as the parameter \<open>rec\<close>; \<open>checkValid\<close> closes the recursion below. A call
  yields \<open>None\<close> when it does not return, \<open>Some Panic\<close> when it panics, and
  \<open>Some (Ret (err, s))\<close> when it returns \<open>err\<close> and leaves the shared objects as \<open>s\<close>.
\<close>

type_synonym result = "(error option \<times> shared) res option"

type_synonym checker = "validationState \<Rightarrow> shared \<Rightarrow> Entry \<Rightarrow> result"

text \<open>\<open>if err := m; err != nil { return err }\<close> followed by \<open>k\<close>.\<close>

definition andThen :: "result \<Rightarrow> (shared \<Rightarrow> result) \<Rightarrow> result" where
  "andThen m k =
     (case m of
        None \<Rightarrow> None
      | Some Panic \<Rightarrow> Some Panic
      | Some (Ret (Some err, s)) \<Rightarrow> Some (Ret (Some err, s))
      | Some (Ret (None, s)) \<Rightarrow> k s)"

text \<open>A call that leaves the shared objects alone, as a \<open>result\<close>.\<close>

definition pureResult :: "shared \<Rightarrow> error option res \<Rightarrow> result" where
  "pureResult s r = (case r of Panic \<Rightarrow> Some Panic | Ret err \<Rightarrow> Some (Ret (err, s)))"

text \<open>The type switch of \<open>checkValidSrc\<close>: the destination that a source points at.\<close>

definition srcDest :: "Entry \<Rightarrow> u64 \<Rightarrow> error + ValueDestination option" where
  "srcDest e pos =
     (case e of
        ECoinbase ref \<Rightarrow> if pos \<noteq> 0 then Inl ErrPosition else Inr (cb_WitnessDestination ref)
      | EIssuance ref \<Rightarrow> if pos \<noteq> 0 then Inl ErrPosition else Inr (iss_WitnessDestination ref)
      | ESpend ref \<Rightarrow> if pos \<noteq> 0 then Inl ErrPosition else Inr (sp_WitnessDestination ref)
      | EMux ref \<Rightarrow>
          if unat pos \<ge> length (WitnessDestinations ref) then Inl ErrPosition
          else Inr (WitnessDestinations ref ! unat pos)
      | EClaim ref \<Rightarrow> if pos \<noteq> 0 then Inl ErrPosition else Inr (cl_WitnessDestination ref)
      | EDpos ref \<Rightarrow> if pos \<noteq> 0 then Inl ErrPosition else Inr (dp_WitnessDestination ref)
      | _ \<Rightarrow> Inl ErrEntryType)"

definition checkValidSrc :: "env \<Rightarrow> checker \<Rightarrow> validationState \<Rightarrow> shared \<Rightarrow> ValueSource option \<Rightarrow> result" where
  "checkValidSrc env rec vstate s vs0 =
     (case vs0 of
        None \<Rightarrow> Some (Ret (Some ErrMissingField, s))
      | Some vs \<Rightarrow>
     (case src_Ref vs of
        None \<Rightarrow> Some (Ret (Some ErrMissingField, s))
      | Some ref \<Rightarrow>
     (if (case src_Value vs of None \<Rightarrow> True | Some v \<Rightarrow> AssetId v = None)
      then Some (Ret (Some ErrMissingField, s))
      else
     (case Entries (tx vstate) ref of
        None \<Rightarrow> Some (Ret (Some ErrMissingEntry, s))
      | Some e \<Rightarrow>
          andThen (rec (vstate\<lparr>entryID := ref\<rparr>) s e) (\<lambda>s'.
            pureResult s'
              (case srcDest e (src_Position vs) of
                 Inl err \<Rightarrow> Ret (Some err)
               | Inr None \<Rightarrow> Panic
               | Inr (Some dest) \<Rightarrow>
                   if dst_Ref dest = None then
                     (if nilHashBytesPanics env then Panic else Ret (Some ErrMismatchedReference))
                   else if dst_Ref dest \<noteq> Some (entryID vstate) then Ret (Some ErrMismatchedReference)
                   else if dst_Position dest \<noteq> sourcePos vstate then Ret (Some ErrMismatchedPosition)
                   else
                     (case Equal (dst_Value dest) (src_Value vs) of
                        None \<Rightarrow> Ret (Some ErrMissingField)
                      | Some eq \<Rightarrow> if \<not> eq then Ret (Some ErrMismatchedValue) else Ret None)))))))"

section \<open>The peg-in claim verifier\<close>

text \<open>\<open>string(b)\<close> and the decoders read a nil byte slice as the empty one.\<close>

definition bytesOf :: "bytes option \<Rightarrow> bytes" where
  "bytesOf b = (case b of None \<Rightarrow> [] | Some x \<Rightarrow> x)"

definition NewOutput :: "ValueSource \<Rightarrow> Program \<Rightarrow> u64 \<Rightarrow> Output" where
  "NewOutput source controlProgram ordinal =
     \<lparr>out_Source = Some source, out_ControlProgram = Some controlProgram, out_Ordinal = ordinal\<rparr>"

definition checkPeginTx :: "env \<Rightarrow> RawTx \<Rightarrow> Output \<Rightarrow> u64 \<Rightarrow> bytes \<Rightarrow> error option res" where
  "checkPeginTx env rawTx prevout claimAmount claimScript =
     (case out_Source prevout of
        None \<Rightarrow> Panic
      | Some psrc \<Rightarrow>
          if unat (src_Position psrc) \<ge> length (rt_Outputs rawTx) then Panic
          else
            (case rt_Outputs rawTx ! unat (src_Position psrc) of
               None \<Rightarrow> Panic
             | Some out \<Rightarrow>
                 if claimAmount \<noteq> ro_Amount out then Ret (Some ErrNoutValueMismatch)
                 else
                   (case GetPeginContractPrograms env claimScript of
                      Inl err \<Rightarrow> Ret (Some err)
                    | Inr peginContractPrograms \<Rightarrow>
                        (case P2WSHProgram env (Sha256 env peginContractPrograms) of
                           Inl err \<Rightarrow> Ret (Some err)
                         | Inr controlProg \<Rightarrow>
                             if ro_ControlProgram out \<noteq> controlProg
                             then Ret (Some ErrControlProgramMismatch)
                             else Ret None))))"

text \<open>
  The loop \<open>for flag := range merkleBlock.Flags\<close> has one loop variable, which Go binds to
  the index of the element; the loop appends \<open>uint8\<close> of it.
\<close>

definition proofFlags :: "MerkleBlock \<Rightarrow> byte list" where
  "proofFlags merkleBlock = map (\<lambda>flag. (of_nat flag :: byte)) [0 ..< length (Flags merkleBlock)]"

definition IsValidPeginWitness :: "env \<Rightarrow> bytes option list \<Rightarrow> Output \<Rightarrow> error option res" where
  "IsValidPeginWitness env peginWitness prevout =
     (case out_Source prevout of
        None \<Rightarrow> Panic
      | Some psrc \<Rightarrow>
     (case src_Value psrc of
        None \<Rightarrow> Panic
      | Some pval \<Rightarrow>
     (case out_ControlProgram prevout of
        None \<Rightarrow> Panic
      | Some pprog \<Rightarrow>
          let assetAmount = \<lparr>AssetId = AssetId pval, Amount = Amount pval\<rparr>;
              src = \<lparr>src_Ref = src_Ref psrc, src_Value = Some assetAmount,
                     src_Position = src_Position psrc\<rparr>;
              prog = \<lparr>VmVersion = VmVersion pprog, Code = Code pprog\<rparr>;
              bytomPrevout = NewOutput src prog (src_Position psrc)
          in
          if length peginWitness \<noteq> 5 then Ret (Some ErrPeginWitnessIsError)
          else
     (case ParseUint env (bytesOf (peginWitness ! 0)) of
        Inl err \<Rightarrow> Ret (Some err)
      | Inr amount \<Rightarrow>
          if \<not> MoneyRange env amount then Ret (Some ErrAmountOutOfRange)
          else
     (let claimScript = bytesOf (peginWitness ! 2) in
      case TxUnmarshalText env (bytesOf (peginWitness ! 3)) of
        Inl err \<Rightarrow> Ret (Some err)
      | Inr rawTx \<Rightarrow>
     (case jsonUnmarshal env (bytesOf (peginWitness ! 4)) of
        Inl err \<Rightarrow> Ret (Some err)
      | Inr merkleBlock \<Rightarrow>
     (let flags = proofFlags merkleBlock in
      case HeaderUnmarshalText env (mb_BlockHeader merkleBlock) of
        Inl err \<Rightarrow> Ret (Some err)
      | Inr blockHeader \<Rightarrow>
          if \<not> ValidateTxMerkleTreeProof env (TxHashes merkleBlock) flags
                 (MatchedTxIDs merkleBlock) (TransactionsMerkleRoot blockHeader)
          then Ret (Some ErrMerkleblockValidationFailed)
          else
     (case checkPeginTx env rawTx bytomPrevout amount claimScript of
        Panic \<Rightarrow> Panic
      | Ret (Some err) \<Rightarrow> Ret (Some err)
      | Ret None \<Rightarrow>
          if HashText env (bytesOf (peginWitness ! 1)) \<noteq> ParentGenesisBlockHash env
          then Ret (Some ErrParentGenesisBlockHash)
          else if ValidatePegin env then
            (case IsConfirmedBytomBlock env (Height blockHeader) (PeginMinDepth env) of
               Some err \<Rightarrow> Ret (Some err)
             | None \<Rightarrow> Ret None)
          else Ret None))))))))"

section \<open>The graph validator\<close>

subsection \<open>The asset sums of a mux\<close>

text \<open>
  \<open>parity\<close> is a Go map from asset id to \<open>int64\<close>; the model keeps it as an association
  list with one pair per key. Reading a missing key gives Go's zero value.
\<close>

type_synonym parity = "(AssetID \<times> i64) list"

definition parityGet :: "parity \<Rightarrow> AssetID \<Rightarrow> i64" where
  "parityGet p a = (case map_of p a of None \<Rightarrow> 0 | Some v \<Rightarrow> v)"

definition isDpos :: "Entry \<Rightarrow> bool" where
  "isDpos e = (case e of EDpos _ \<Rightarrow> True | _ \<Rightarrow> False)"

text \<open>The first loop of the mux case: one source.\<close>

definition muxSource :: "Tx \<Rightarrow> parity \<Rightarrow> ValueSource option \<Rightarrow> (error + parity) res" where
  "muxSource t p src0 =
     (case src0 of
        None \<Rightarrow> Panic
      | Some src \<Rightarrow>
     (case src_Ref src of
        None \<Rightarrow> Panic
      | Some ref \<Rightarrow>
     (case Entries t ref of
        None \<Rightarrow> Ret (Inl ErrMissingEntry)
      | Some e \<Rightarrow>
          if isDpos e then Ret (Inr p)
          else
     (case src_Value src of
        None \<Rightarrow> Panic
      | Some v \<Rightarrow>
          if MaxInt64 < uint (Amount v) then Ret (Inl ErrOverflow)
          else
     (case AssetId v of
        None \<Rightarrow> Panic
      | Some a \<Rightarrow>
          let r = AddInt64 (parityGet p a) (Amount v)
          in if \<not> snd r then Ret (Inl ErrOverflow)
             else Ret (Inr (AList.update a (fst r) p)))))))"

fun muxSources :: "Tx \<Rightarrow> parity \<Rightarrow> ValueSource option list \<Rightarrow> (error + parity) res" where
  "muxSources t p [] = Ret (Inr p)"
| "muxSources t p (src # srcs) =
     (case muxSource t p src of
        Panic \<Rightarrow> Panic
      | Ret (Inl err) \<Rightarrow> Ret (Inl err)
      | Ret (Inr p') \<Rightarrow> muxSources t p' srcs)"

text \<open>The second loop: one destination.\<close>

definition muxDest :: "parity \<Rightarrow> ValueDestination option \<Rightarrow> (error + parity) res" where
  "muxDest p dest0 =
     (case dest0 of
        None \<Rightarrow> Panic
      | Some dest \<Rightarrow>
     (case dst_Value dest of
        None \<Rightarrow> Panic
      | Some v \<Rightarrow>
     (case AssetId v of
        None \<Rightarrow> Panic
      | Some a \<Rightarrow>
     (case map_of p a of
        None \<Rightarrow> Ret (Inl ErrNoSource)
      | Some sum0 \<Rightarrow>
          if MaxInt64 < uint (Amount v) then Ret (Inl ErrOverflow)
          else
            let r = SubInt64 sum0 (Amount v)
            in if \<not> snd r then Ret (Inl ErrOverflow)
               else Ret (Inr (AList.update a (fst r) p))))))"

fun muxDests :: "parity \<Rightarrow> ValueDestination option list \<Rightarrow> (error + parity) res" where
  "muxDests p [] = Ret (Inr p)"
| "muxDests p (dest # dests) =
     (case muxDest p dest of
        Panic \<Rightarrow> Panic
      | Ret (Inl err) \<Rightarrow> Ret (Inl err)
      | Ret (Inr p') \<Rightarrow> muxDests p' dests)"

text \<open>
  The third loop, over the pairs of \<open>parity\<close> in the order \<open>range\<close> visits them: the net
  amount of the settlement asset goes to \<open>setGas\<close>, every other net amount must be zero.
\<close>

fun muxBalance :: "consensus \<Rightarrow> i64 \<Rightarrow> GasState \<Rightarrow> (AssetID \<times> i64) list \<Rightarrow> error option \<times> GasState" where
  "muxBalance c txSize g [] = (None, g)"
| "muxBalance c txSize g ((assetID, amount) # rest) =
     (if assetID = BTMAssetID c then
        (case setGas c g amount txSize of
           (Some err, g') \<Rightarrow> (Some err, g')
         | (None, g') \<Rightarrow> muxBalance c txSize g' rest)
      else if amount \<noteq> 0 then (Some ErrUnbalanced, g)
      else muxBalance c txSize g rest)"

text \<open>The three loops together, as the mux case runs them.\<close>

definition muxParity :: "env \<Rightarrow> Tx \<Rightarrow> GasState \<Rightarrow> Mux \<Rightarrow> (error option \<times> GasState) res" where
  "muxParity env t g e =
     (case muxSources t [] (Sources e) of
        Panic \<Rightarrow> Panic
      | Ret (Inl err) \<Rightarrow> Ret (Some err, g)
      | Ret (Inr p1) \<Rightarrow>
     (case muxDests p1 (WitnessDestinations e) of
        Panic \<Rightarrow> Panic
      | Ret (Inl err) \<Rightarrow> Ret (Some err, g)
      | Ret (Inr p2) \<Rightarrow>
          Ret (muxBalance (cons env) (SerializedSize (tx_TxHeader t)) g (mapOrder env p2))))"

subsection \<open>The loops that descend\<close>

fun checkResults :: "checker \<Rightarrow> validationState \<Rightarrow> shared \<Rightarrow> Hash option list \<Rightarrow> result" where
  "checkResults rec vs s [] = Some (Ret (None, s))"
| "checkResults rec vs s (resID # resIDs) =
     (case resID of
        None \<Rightarrow> Some Panic
      | Some rid \<Rightarrow>
          let resultEntry = (case Entries (tx vs) rid of None \<Rightarrow> EOther | Some e \<Rightarrow> e)
          in andThen (rec (vs\<lparr>entryID := rid\<rparr>) s resultEntry)
               (\<lambda>s'. checkResults rec vs s' resIDs))"

fun checkGasInputs :: "checker \<Rightarrow> validationState \<Rightarrow> shared \<Rightarrow> Hash list \<Rightarrow> result" where
  "checkGasInputs rec vs s [] = Some (Ret (None, s))"
| "checkGasInputs rec vs s (BTMInputID # ids) =
     (case Entries (tx vs) BTMInputID of
        None \<Rightarrow> Some (Ret (Some ErrMissingEntry, s))
      | Some e \<Rightarrow>
          andThen (rec (vs\<lparr>entryID := BTMInputID\<rparr>) s e)
            (\<lambda>s'. checkGasInputs rec vs s' ids))"

fun checkMuxDests :: "env \<Rightarrow> validationState \<Rightarrow> nat \<Rightarrow> ValueDestination option list \<Rightarrow> error option res" where
  "checkMuxDests env vs i [] = Ret None"
| "checkMuxDests env vs i (dest # dests) =
     (case checkValidDest env (vs\<lparr>destPos := of_nat i\<rparr>) dest of
        Panic \<Rightarrow> Panic
      | Ret (Some err) \<Rightarrow> Ret (Some err)
      | Ret None \<Rightarrow> checkMuxDests env vs (Suc i) dests)"

fun checkMuxSrcs :: "env \<Rightarrow> checker \<Rightarrow> validationState \<Rightarrow> shared \<Rightarrow> nat \<Rightarrow> ValueSource option list \<Rightarrow> result" where
  "checkMuxSrcs env rec vs s i [] = Some (Ret (None, s))"
| "checkMuxSrcs env rec vs s i (src # srcs) =
     andThen (checkValidSrc env rec (vs\<lparr>sourcePos := of_nat i\<rparr>) s src)
       (\<lambda>s'. checkMuxSrcs env rec vs s' (Suc i) srcs)"

subsection \<open>The cases of the type switch\<close>

definition setGasValidFlag :: "shared \<Rightarrow> shared" where
  "setGasValidFlag s = s\<lparr>gasStatus := (gasStatus s)\<lparr>GasValid := True\<rparr>\<rparr>"

definition checkTxHeader :: "checker \<Rightarrow> validationState \<Rightarrow> shared \<Rightarrow> TxHeader \<Rightarrow> result" where
  "checkTxHeader rec vs s e =
     andThen (checkResults rec vs s (ResultIds e)) (\<lambda>s'.
       if Version e = 1 \<and> length (ResultIds e) = 0 then Some (Ret (Some ErrEmptyResults, s'))
       else Some (Ret (None, s')))"

definition checkMux :: "env \<Rightarrow> checker \<Rightarrow> validationState \<Rightarrow> shared \<Rightarrow> Mux \<Rightarrow> result" where
  "checkMux env rec vs s e =
     (case muxParity env (tx vs) (gasStatus s) e of
        Panic \<Rightarrow> Some Panic
      | Ret (Some err, g) \<Rightarrow> Some (Ret (Some err, s\<lparr>gasStatus := g\<rparr>))
      | Ret (None, g) \<Rightarrow>
          andThen (checkGasInputs rec vs (s\<lparr>gasStatus := g\<rparr>) (GasInputIDs (tx vs))) (\<lambda>s1.
          andThen (pureResult s1 (checkMuxDests env vs 0 (WitnessDestinations e))) (\<lambda>s2.
          andThen
            (if length (GasInputIDs (tx vs)) > 0 then
               (case setGasValid (gasStatus s2) of
                  (err, g') \<Rightarrow> Some (Ret (err, s2\<lparr>gasStatus := g'\<rparr>)))
             else Some (Ret (None, s2))) (\<lambda>s3.
          checkMuxSrcs env rec vs s3 0 (Sources e)))))"

definition checkOutput :: "env \<Rightarrow> checker \<Rightarrow> validationState \<Rightarrow> shared \<Rightarrow> Output \<Rightarrow> result" where
  "checkOutput env rec vs s e = checkValidSrc env rec (vs\<lparr>sourcePos := 0\<rparr>) s (out_Source e)"

definition checkRetirement :: "env \<Rightarrow> checker \<Rightarrow> validationState \<Rightarrow> shared \<Rightarrow> Retirement \<Rightarrow> result" where
  "checkRetirement env rec vs s e = checkValidSrc env rec (vs\<lparr>sourcePos := 0\<rparr>) s (ret_Source e)"

definition checkIssuance :: "env \<Rightarrow> validationState \<Rightarrow> shared \<Rightarrow> Issuance \<Rightarrow> result" where
  "checkIssuance env vs s e =
     (case ComputeAssetID env (iss_WitnessAssetDefinition e) of
        Panic \<Rightarrow> Some Panic
      | Ret computedAssetID \<Rightarrow>
     (case iss_Value e of
        None \<Rightarrow> Some Panic
      | Some v \<Rightarrow>
     (case AssetId v of
        None \<Rightarrow> Some Panic
      | Some a \<Rightarrow>
          if computedAssetID \<noteq> a then Some (Ret (Some ErrMismatchedAssetID, s))
          else
     (case iss_WitnessAssetDefinition e of
        None \<Rightarrow> Some Panic
      | Some ad \<Rightarrow>
     (case vmVerify env vs (EIssuance e) (IssuanceProgram ad) (iss_WitnessArguments e)
             (GasLeft (gasStatus s)) of
        Inl err \<Rightarrow> Some (Ret (Some err, s))
      | Inr gasLeft \<Rightarrow>
     (case updateUsage (cons env) (gasStatus s) gasLeft of
        (Some err, g) \<Rightarrow> Some (Ret (Some err, s\<lparr>gasStatus := g\<rparr>))
      | (None, g) \<Rightarrow>
          pureResult (s\<lparr>gasStatus := g\<rparr>)
            (checkValidDest env (vs\<lparr>destPos := 0\<rparr>) (iss_WitnessDestination e))))))))"

definition checkSpend :: "env \<Rightarrow> validationState \<Rightarrow> shared \<Rightarrow> Spend \<Rightarrow> result" where
  "checkSpend env vs s e =
     (case sp_SpentOutputId e of
        None \<Rightarrow> Some (Ret (Some ErrMissingField, s))
      | Some spentOutputId \<Rightarrow>
     (case txOutput env (tx vs) spentOutputId of
        Inl err \<Rightarrow> Some (Ret (Some err, s))
      | Inr spentOutput \<Rightarrow>
     (case vmVerify env vs (ESpend e) (out_ControlProgram spentOutput) (sp_WitnessArguments e)
             (GasLeft (gasStatus s)) of
        Inl err \<Rightarrow> Some (Ret (Some err, s))
      | Inr gasLeft \<Rightarrow>
     (case updateUsage (cons env) (gasStatus s) gasLeft of
        (Some err, g) \<Rightarrow> Some (Ret (Some err, s\<lparr>gasStatus := g\<rparr>))
      | (None, g) \<Rightarrow>
     (case out_Source spentOutput of
        None \<Rightarrow> Some Panic
      | Some ssrc \<Rightarrow>
     (case sp_WitnessDestination e of
        None \<Rightarrow> Some Panic
      | Some wd \<Rightarrow>
     (case Equal (src_Value ssrc) (dst_Value wd) of
        None \<Rightarrow> Some (Ret (Some ErrEmptyAssetAmount, s\<lparr>gasStatus := g\<rparr>))
      | Some eq \<Rightarrow>
          if \<not> eq then Some (Ret (Some ErrMismatchedValue, s\<lparr>gasStatus := g\<rparr>))
          else
            pureResult (s\<lparr>gasStatus := g\<rparr>)
              (checkValidDest env (vs\<lparr>destPos := 0\<rparr>) (sp_WitnessDestination e)))))))))"

definition checkCoinbase :: "env \<Rightarrow> validationState \<Rightarrow> shared \<Rightarrow> Coinbase \<Rightarrow> result" where
  "checkCoinbase env vs s e =
     (if (case block vs of
            None \<Rightarrow> True
          | Some b \<Rightarrow> length (Transactions b) = 0 \<or> Transactions b ! 0 \<noteq> tx_ptr (tx vs))
      then Some (Ret (Some ErrWrongCoinbaseTransaction, s))
      else
     (case cb_WitnessDestination e of
        None \<Rightarrow> Some Panic
      | Some wd \<Rightarrow>
     (case dst_Value wd of
        None \<Rightarrow> Some Panic
      | Some v \<Rightarrow>
     (case AssetId v of
        None \<Rightarrow> Some Panic
      | Some a \<Rightarrow>
          if a \<noteq> BTMAssetID (cons env) then Some (Ret (Some ErrWrongCoinbaseAsset, s))
          else if (case cb_Arbitrary e of
                     None \<Rightarrow> False
                   | Some arbitrary \<Rightarrow> CoinbaseArbitrarySizeLimit (cons env) < int (length arbitrary))
          then Some (Ret (Some ErrCoinbaseArbitraryOversize, s))
          else
            andThen (pureResult s (checkValidDest env (vs\<lparr>destPos := 0\<rparr>) (cb_WitnessDestination e)))
              (\<lambda>s'. Some (Ret (None, setGasValidFlag s')))))))"

definition checkClaim :: "env \<Rightarrow> validationState \<Rightarrow> shared \<Rightarrow> Claim \<Rightarrow> result" where
  "checkClaim env vs s e =
     (case cl_SpentOutputId e of
        None \<Rightarrow> Some (Ret (Some ErrMissingField, s))
      | Some spentOutputId \<Rightarrow>
     (case txOutput env (tx vs) spentOutputId of
        Inl err \<Rightarrow> Some (Ret (Some err, s))
      | Inr spentOutput \<Rightarrow>
          let stack = cl_Peginwitness e in
          if length stack < 5 \<or> stack ! 1 = None \<or> out_Source spentOutput = None
          then Some (Ret (Some ErrPeginNoWitness, s))
          else
     (case IsValidPeginWitness env stack spentOutput of
        Panic \<Rightarrow> Some Panic
      | Ret (Some err) \<Rightarrow> Some (Ret (Some err, s))
      | Ret None \<Rightarrow>
     (case out_Source spentOutput of
        None \<Rightarrow> Some Panic
      | Some ssrc \<Rightarrow>
     (case cl_WitnessDestination e of
        None \<Rightarrow> Some Panic
      | Some wd \<Rightarrow>
     (case Equal (src_Value ssrc) (dst_Value wd) of
        None \<Rightarrow> Some (Ret (Some ErrEmptyAssetAmount, s))
      | Some eq \<Rightarrow>
          if \<not> eq then Some (Ret (Some ErrMismatchedValue, s))
          else
            andThen (pureResult s (checkValidDest env (vs\<lparr>destPos := 0\<rparr>) (cl_WitnessDestination e)))
              (\<lambda>s'. Some (Ret (None, setGasValidFlag s')))))))))"

text \<open>The type switch of \<open>checkValid\<close>.\<close>

definition checkEntry :: "env \<Rightarrow> checker \<Rightarrow> validationState \<Rightarrow> shared \<Rightarrow> Entry \<Rightarrow> result" where
  "checkEntry env rec vs s e =
     (case e of
        ETxHeader h \<Rightarrow> checkTxHeader rec vs s h
      | EMux m \<Rightarrow> checkMux env rec vs s m
      | EOutput out \<Rightarrow> checkOutput env rec vs s out
      | ERetirement r \<Rightarrow> checkRetirement env rec vs s r
      | EIssuance i \<Rightarrow> checkIssuance env vs s i
      | ESpend sp \<Rightarrow> checkSpend env vs s sp
      | ECoinbase cb \<Rightarrow> checkCoinbase env vs s cb
      | EClaim cl \<Rightarrow> checkClaim env vs s cl
      | EDpos d \<Rightarrow> Some (Ret (None, s))
      | EOther \<Rightarrow> Some (Ret (Some ErrUnexpectedEntryType, s)))"

subsection \<open>Memoization and the recursion\<close>

text \<open>
  One call of \<open>checkValid\<close>: a cached outcome is handed back at once; otherwise the type
  switch runs and the deferred function stores what the call returns under the entry id.
\<close>

definition checkValidCall :: "env \<Rightarrow> checker \<Rightarrow> validationState \<Rightarrow> shared \<Rightarrow> Entry \<Rightarrow> result" where
  "checkValidCall env rec vs s e =
     (let entryID = EntryID env e in
      case cache s entryID of
        Some err \<Rightarrow> Some (Ret (err, s))
      | None \<Rightarrow>
          (case checkEntry env rec vs s e of
             None \<Rightarrow> None
           | Some Panic \<Rightarrow> Some Panic
           | Some (Ret (err, s')) \<Rightarrow> Some (Ret (err, s'\<lparr>cache := (cache s')(entryID \<mapsto> err)\<rparr>))))"

text \<open>
  The recursion has no bound of its own in the code: it ends because the entries of a
  transaction form a finite acyclic graph. The model counts the depth of nested calls;
  \<open>None\<close> says that the depth allowed was not enough.
\<close>

primrec checkValid :: "nat \<Rightarrow> env \<Rightarrow> validationState \<Rightarrow> shared \<Rightarrow> Entry \<Rightarrow> result" where
  "checkValid 0 env vs s e = None"
| "checkValid (Suc n) env vs s e = checkValidCall env (checkValid n env) vs s e"

section \<open>Signing a raw transaction witness\<close>

text \<open>
  \<open>chainjson.HexBytes\<close> is a byte slice; \<open>make\<close> fills the new slots with nil slices, and
  \<open>len\<close> of a nil slice is 0 (\<open>bytesOf\<close>). The template and the key types belong to other
  packages: \<open>'tpl\<close> is \<open>*Template\<close>, an extended private key is its bytes, and the four
  functions the method calls on them are parameters.
\<close>

record keyID =
  XPub :: bytes
  DerivationPath :: "bytes list"

record RawTxSigWitness =
  Quorum :: int
  Keys :: "keyID list"
  Sigs :: "bytes option list"

record 'tpl signing =
  XPubString :: "bytes \<Rightarrow> string"
  xprvXPub :: "bytes \<Rightarrow> bytes"
  tplHash :: "'tpl \<Rightarrow> u32 \<Rightarrow> bytes"
  xprvSign :: "bytes \<Rightarrow> bytes \<Rightarrow> bytes"

definition padSigs :: "RawTxSigWitness \<Rightarrow> RawTxSigWitness" where
  "padSigs sw =
     (if length (Sigs sw) < length (Keys sw)
      then sw\<lparr>Sigs := Sigs sw @ replicate (length (Keys sw) - length (Sigs sw)) None\<rparr>
      else sw)"

text \<open>
  The loop over \<open>sw.Keys\<close> from index \<open>i\<close> on. Reading \<open>sw.Sigs[i]\<close> beyond the end of the
  slice would panic.
\<close>

fun signLoop :: "'tpl signing \<Rightarrow> 'tpl \<Rightarrow> u32 \<Rightarrow> bytes \<Rightarrow> nat \<Rightarrow> keyID list \<Rightarrow> bytes option list
    \<Rightarrow> bytes option list res" where
  "signLoop sg tpl index xprv i [] sigs = Ret sigs"
| "signLoop sg tpl index xprv i (keyID # keys) sigs =
     (if i \<ge> length sigs then Panic
      else if length (bytesOf (sigs ! i)) > 0 then signLoop sg tpl index xprv (Suc i) keys sigs
      else if XPubString sg (XPub keyID) \<noteq> XPubString sg (xprvXPub sg xprv)
      then signLoop sg tpl index xprv (Suc i) keys sigs
      else
        let data = tplHash sg tpl index;
            sigBytes = xprvSign sg xprv data
        in Ret (sigs[i := Some sigBytes]))"

definition Sign :: "'tpl signing \<Rightarrow> RawTxSigWitness \<Rightarrow> 'tpl \<Rightarrow> u32 \<Rightarrow> bytes
    \<Rightarrow> (error option \<times> RawTxSigWitness) res" where
  "Sign sg sw tpl index xprv =
     (let sw1 = padSigs sw in
      case signLoop sg tpl index xprv 0 (Keys sw1) (Sigs sw1) of
        Panic \<Rightarrow> Panic
      | Ret sigs \<Rightarrow> Ret (None, sw1\<lparr>Sigs := sigs\<rparr>))"

section \<open>Predicates used to state the properties\<close>

text \<open>
  Slot \<open>j\<close> can take a signature: it belongs to a key, its signature is empty, and the
  string form of the key's public key is that of the signing key's public key.
\<close>

definition signable :: "'tpl signing \<Rightarrow> bytes \<Rightarrow> keyID list \<Rightarrow> bytes option list \<Rightarrow> nat \<Rightarrow> bool" where
  "signable sg xprv keys sigs j \<longleftrightarrow>
     j < length keys \<and> length (bytesOf (sigs ! j)) = 0
     \<and> XPubString sg (XPub (keys ! j)) = XPubString sg (xprvXPub sg xprv)"







section \<open>Example data\<close>

definition exampleConsensus :: consensus where
  "exampleConsensus = \<lparr>VMGasRate = 100, MaxGasAmount = 10000000, StorageGasRate = 1,
     DefaultGasCredit = 30000, CoinbaseArbitrarySizeLimit = 128, BTMAssetID = 255\<rparr>"

definition exampleGas :: GasState where
  "exampleGas = \<lparr>BTMValue = 0, GasLeft = 1000, GasUsed = 0, GasValid = False, StorageGas = 10\<rparr>"

definition exampleSigning :: "nat signing" where
  "exampleSigning = \<lparr>XPubString = map (\<lambda>w. if w = 1 then CHR ''1'' else if w = 2 then CHR ''2'' else CHR ''x''),
     xprvXPub = (\<lambda>x. x), tplHash = (\<lambda>t i. [7]), xprvSign = (\<lambda>x d. x @ d)\<rparr>"

definition exampleWitness :: RawTxSigWitness where
  "exampleWitness = \<lparr>Quorum = 1,
     Keys = [\<lparr>XPub = [1], DerivationPath = []\<rparr>, \<lparr>XPub = [2], DerivationPath = []\<rparr>],
     Sigs = []\<rparr>"


definition exampleEntryID :: "Entry \<Rightarrow> Hash" where
  "exampleEntryID e =
     (case e of
        ETxHeader _ \<Rightarrow> 10
      | EMux _ \<Rightarrow> 2
      | EOutput out \<Rightarrow> 40 + ucast (out_Ordinal out)
      | ERetirement _ \<Rightarrow> 9
      | EIssuance _ \<Rightarrow> 8
      | ESpend _ \<Rightarrow> 6
      | ECoinbase _ \<Rightarrow> 1
      | EClaim _ \<Rightarrow> 21
      | EDpos _ \<Rightarrow> 5
      | EOther \<Rightarrow> 0)"

definition exampleEnv :: env where
  "exampleEnv =
     \<lparr>cons = exampleConsensus,
      EntryID = exampleEntryID,
      mapOrder = (\<lambda>p. p),
      nilHashBytesPanics = True,
      ComputeAssetID = (\<lambda>ad. case ad of None \<Rightarrow> Panic | Some d \<Rightarrow> Ret 7),
      vmVerify = (\<lambda>vs e prog args gasLeft. Inr gasLeft),
      txOutput = (\<lambda>t h. case Entries t h of
                          None \<Rightarrow> Inl ErrMissingEntry
                        | Some (EOutput out) \<Rightarrow> Inr out
                        | Some _ \<Rightarrow> Inl ErrEntryType),
      ParseUint = (\<lambda>b. if b = [53, 48] then Inr 50 else Inl (External 1)),
      MoneyRange = (\<lambda>amount. True),
      TxUnmarshalText = (\<lambda>b. Inr \<lparr>rt_Outputs = [Some \<lparr>ro_Amount = 50, ro_ControlProgram = [1]\<rparr>]\<rparr>),
      jsonUnmarshal = (\<lambda>b. Inr \<lparr>mb_BlockHeader = [], TxHashes = [Some 9], StatusHashes = [],
                                Flags = [2], MatchedTxIDs = [Some 9]\<rparr>),
      HeaderUnmarshalText = (\<lambda>b. Inr \<lparr>Height = 100, TransactionsMerkleRoot = 9\<rparr>),
      ValidateTxMerkleTreeProof = (\<lambda>hashes flags matched root.
                                     length flags = length hashes \<and> hashes = [Some root] \<and> matched = hashes),
      GetPeginContractPrograms = (\<lambda>script. Inr script),
      Sha256 = (\<lambda>b. b),
      P2WSHProgram = (\<lambda>h. Inr h),
      HashText = map (\<lambda>w. if w = 103 then CHR ''g'' else CHR ''x''),
      ParentGenesisBlockHash = ''g'',
      PeginMinDepth = 6,
      ValidatePegin = False,
      IsConfirmedBytomBlock = (\<lambda>height depth. None)\<rparr>"

definition btm50 :: AssetAmount where
  "btm50 = \<lparr>AssetId = Some 255, Amount = 50\<rparr>"

definition exampleCoinbase :: Coinbase where
  "exampleCoinbase =
     \<lparr>cb_WitnessDestination = Some \<lparr>dst_Ref = Some 2, dst_Value = Some btm50, dst_Position = 0\<rparr>,
      cb_Arbitrary = None\<rparr>"

definition exampleMux :: Mux where
  "exampleMux =
     \<lparr>Sources = [Some \<lparr>src_Ref = Some 1, src_Value = Some btm50, src_Position = 0\<rparr>],
      WitnessDestinations = [Some \<lparr>dst_Ref = Some 40, dst_Value = Some btm50, dst_Position = 0\<rparr>]\<rparr>"

definition exampleOutput :: Output where
  "exampleOutput =
     \<lparr>out_Source = Some \<lparr>src_Ref = Some 2, src_Value = Some btm50, src_Position = 0\<rparr>,
      out_ControlProgram = Some \<lparr>VmVersion = 1, Code = [1]\<rparr>, out_Ordinal = 0\<rparr>"

definition exampleHeader :: TxHeader where
  "exampleHeader = NewTxHeader 1 300 None 0 [Some 40] False"

definition exampleTx :: Tx where
  "exampleTx =
     \<lparr>tx_ptr = 77, tx_TxHeader = exampleHeader, ID = 10,
      Entries = [1 \<mapsto> ECoinbase exampleCoinbase, 2 \<mapsto> EMux exampleMux,
                 40 \<mapsto> EOutput exampleOutput, 10 \<mapsto> ETxHeader exampleHeader],
      GasInputIDs = []\<rparr>"

definition exampleState :: validationState where
  "exampleState =
     \<lparr>block = Some \<lparr>Transactions = [77, 78]\<rparr>, tx = exampleTx, entryID = 10,
      sourcePos = 0, destPos = 0\<rparr>"

definition exampleShared :: shared where
  "exampleShared = \<lparr>gasStatus = exampleGas, cache = Map.empty\<rparr>"

definition examplePriorOutput :: Output where
  "examplePriorOutput =
     \<lparr>out_Source = Some \<lparr>src_Ref = Some 30, src_Value = Some btm50, src_Position = 0\<rparr>,
      out_ControlProgram = Some \<lparr>VmVersion = 1, Code = [1]\<rparr>, out_Ordinal = 1\<rparr>"

definition exampleClaim :: Claim where
  "exampleClaim =
     \<lparr>cl_SpentOutputId = Some 41, cl_WitnessArguments = [],
      cl_WitnessDestination = Some \<lparr>dst_Ref = Some 42, dst_Value = Some btm50, dst_Position = 0\<rparr>,
      cl_Peginwitness = [Some [53, 48], Some [103], Some [1], Some [], Some []]\<rparr>"

definition exampleClaimOutput :: Output where
  "exampleClaimOutput =
     \<lparr>out_Source = Some \<lparr>src_Ref = Some 21, src_Value = Some btm50, src_Position = 0\<rparr>,
      out_ControlProgram = Some \<lparr>VmVersion = 1, Code = [1]\<rparr>, out_Ordinal = 2\<rparr>"

definition exampleClaimTx :: Tx where
  "exampleClaimTx =
     \<lparr>tx_ptr = 79, tx_TxHeader = NewTxHeader 1 300 None 0 [Some 42] False, ID = 11,
      Entries = [41 \<mapsto> EOutput examplePriorOutput, 21 \<mapsto> EClaim exampleClaim,
                 42 \<mapsto> EOutput exampleClaimOutput],
      GasInputIDs = []\<rparr>"

definition exampleClaimState :: validationState where
  "exampleClaimState =
     \<lparr>block = None, tx = exampleClaimTx, entryID = 21, sourcePos = 0, destPos = 0\<rparr>"

definition exampleFinal :: shared where
  "exampleFinal =
     \<lparr>gasStatus = \<lparr>BTMValue = 0, GasLeft = 0, GasUsed = 0, GasValid = True, StorageGas = 300\<rparr>,
      cache = [1 \<mapsto> None, 2 \<mapsto> None, 40 \<mapsto> None, 10 \<mapsto> None]\<rparr>"

definition exampleMuxSource :: ValueSource where
  "exampleMuxSource = \<lparr>src_Ref = Some 1, src_Value = Some btm50, src_Position = 0\<rparr>"

definition exampleCoinbaseDest :: ValueDestination where
  "exampleCoinbaseDest = \<lparr>dst_Ref = Some 2, dst_Value = Some btm50, dst_Position = 0\<rparr>"

definition exampleAfterCoinbase :: shared where
  "exampleAfterCoinbase = \<lparr>gasStatus = exampleGas\<lparr>GasValid := True\<rparr>, cache = [1 \<mapsto> None]\<rparr>"















section \<open>Unfolding the example data\<close>

lemmas example_defs = exampleState_def exampleTx_def exampleCoinbase_def exampleEnv_def
      exampleConsensus_def btm50_def exampleMux_def exampleOutput_def exampleHeader_def
      exampleShared_def exampleEntryID_def NewTxHeader_def

lemmas claim_defs = exampleClaimState_def exampleClaimTx_def exampleClaim_def exampleClaimOutput_def
  examplePriorOutput_def

lemmas run_defs = checkValidCall_def checkEntry_def checkTxHeader_def checkMux_def checkOutput_def
  checkCoinbase_def checkValidSrc_def checkValidDest_def srcDest_def destSource_def Equal_def
  andThen_def pureResult_def setGasValidFlag_def muxParity_def muxSource_def muxDest_def
  parityGet_def isDpos_def AddInt64_def SubInt64_def MulInt64_def DivInt64_def inInt64_def
  MinInt64_def MaxInt64_def setGas_def setGasValid_def Let_def



section \<open>Checked arithmetic computes the exact result\<close>

lemma sint_word_of_int_i64: "inInt64 k \<Longrightarrow> sint (word_of_int k :: i64) = k"
  by (simp add: sint_sbintrunc' inInt64_def MinInt64_def MaxInt64_def signed_take_bit_int_eq_self)

lemma inInt64_sint [simp]: "inInt64 (sint (a :: i64))"
  using sint_ge [of a] sint_lt [of a] by (simp add: inInt64_def MinInt64_def MaxInt64_def)


lemma sint_sub_i64: "inInt64 (sint a - sint b) \<Longrightarrow> sint (a - b :: i64) = sint a - sint b"
  by (simp add: sint_word_ariths inInt64_def MinInt64_def MaxInt64_def signed_take_bit_int_eq_self)

lemma sint_mult_i64: "inInt64 (sint a * sint b) \<Longrightarrow> sint (a * b :: i64) = sint a * sint b"
  by (simp add: sint_word_ariths inInt64_def MinInt64_def MaxInt64_def signed_take_bit_int_eq_self)

lemma AddInt64_ok: "snd (AddInt64 a b) \<longleftrightarrow> inInt64 (sint a + sint b)"
  by (simp add: AddInt64_def)
lemma SubInt64_ok: "snd (SubInt64 a b) \<longleftrightarrow> inInt64 (sint a - sint b)"
  by (simp add: SubInt64_def)
lemma MulInt64_ok: "snd (MulInt64 a b) \<longleftrightarrow> inInt64 (sint a * sint b)"
  by (simp add: MulInt64_def)
lemma MulInt64_val: "snd (MulInt64 a b) \<Longrightarrow> sint (fst (MulInt64 a b)) = sint a * sint b"
  by (simp add: MulInt64_def sint_mult_i64 split: if_splits)
lemma DivInt64_ok: "snd (DivInt64 a b) \<longleftrightarrow> b \<noteq> 0 \<and> inInt64 (sint a sdiv sint b)"
  by (simp add: DivInt64_def)
lemma DivInt64_val: "snd (DivInt64 a b) \<Longrightarrow> sint (fst (DivInt64 a b)) = sint a sdiv sint b"
  by (simp add: DivInt64_def sint_word_of_int_i64 split: if_splits)

lemma abs_div_abs_bounds: "0 \<le> \<bar>k::int\<bar> div \<bar>l\<bar> \<and> \<bar>k\<bar> div \<bar>l\<bar> \<le> \<bar>k\<bar>"
proof (cases "l = 0 \<or> k = 0")
  case True
  then show ?thesis by auto
next
  case False
  then have "0 < \<bar>l\<bar>" "0 < \<bar>k\<bar>" by simp_all
  then show ?thesis
    using pos_imp_zdiv_nonneg_iff [of "\<bar>l\<bar>" "\<bar>k\<bar>"] int_div_le_self [of "\<bar>k\<bar>" "\<bar>l\<bar>"] by simp
qed

lemma abs_sdiv_le: "\<bar>(k::int) sdiv l\<bar> \<le> \<bar>k\<bar>"
proof -
  have "\<bar>k sdiv l\<bar> = \<bar>sgn k\<bar> * \<bar>sgn l\<bar> * (\<bar>k\<bar> div \<bar>l\<bar>)"
    using abs_div_abs_bounds [of k l] by (simp add: signed_divide_int_def abs_mult)
  also have "\<dots> \<le> \<bar>k\<bar> div \<bar>l\<bar>"
    using abs_div_abs_bounds [of k l] by (cases "k = 0"; cases "l = 0") simp_all
  also have "\<dots> \<le> \<bar>k\<bar>"
    using abs_div_abs_bounds [of k l] by simp
  finally show ?thesis .
qed

lemma inInt64_sdiv_nonneg: "0 \<le> sint (a::i64) \<Longrightarrow> inInt64 (sint a sdiv k)"
  using abs_sdiv_le [of "sint a" k] inInt64_sint [of a]
  unfolding inInt64_def MinInt64_def MaxInt64_def by arith

lemma sless_0_iff: "(a::i64) <s 0 \<longleftrightarrow> sint a < 0"
  by (simp add: word_sless_alt)


section \<open>The gas meter\<close>

text \<open>
  C4. \<open>setGas\<close> fails with the gas-calculation error when the amount is negative. Otherwise
  it records the amount, sets \<open>GasLeft\<close> to the amount divided by the gas rate (checked,
  truncating) clamped to \<open>MaxGasAmount\<close>, and \<open>StorageGas\<close> to the size times the storage gas
  rate (checked); it fails with the gas-calculation error exactly when the rate is zero or the
  product overflows. With gas rate 100 the amount 100000000 gives \<open>GasLeft = 1000000\<close>, or the
  ceiling when that is smaller.
\<close>

theorem setGas_spec:
  fixes c :: consensus and g :: GasState and btm txSize :: i64
  defines "r \<equiv> setGas c g btm txSize"
  shows "(btm <s 0 \<longrightarrow> r = (Some ErrGasCalculate, g))
    \<and> (\<not> btm <s 0 \<longrightarrow>
          BTMValue (snd r) = btm \<and> GasUsed (snd r) = GasUsed g \<and> GasValid (snd r) = GasValid g
        \<and> (fst r = None \<or> fst r = Some ErrGasCalculate)
        \<and> (fst r = None \<longleftrightarrow>
              VMGasRate c \<noteq> 0 \<and> inInt64 (sint txSize * sint (StorageGasRate c)))
        \<and> (VMGasRate c \<noteq> 0 \<longrightarrow>
              sint (GasLeft (snd r)) = min (sint btm sdiv sint (VMGasRate c)) (sint (MaxGasAmount c)))
        \<and> (fst r = None \<longrightarrow> sint (StorageGas (snd r)) = sint txSize * sint (StorageGasRate c)))
    \<and> (VMGasRate c = 100 \<and> btm = 100000000 \<longrightarrow>
          sint (GasLeft (snd r)) = min 1000000 (sint (MaxGasAmount c)))"
proof -
  have neg: "btm <s 0 \<longrightarrow> r = (Some ErrGasCalculate, g)"
    by (simp add: r_def setGas_def)
  have pos: "BTMValue (snd r) = btm \<and> GasUsed (snd r) = GasUsed g \<and> GasValid (snd r) = GasValid g
        \<and> (fst r = None \<or> fst r = Some ErrGasCalculate)
        \<and> (fst r = None \<longleftrightarrow>
              VMGasRate c \<noteq> 0 \<and> inInt64 (sint txSize * sint (StorageGasRate c)))
        \<and> (VMGasRate c \<noteq> 0 \<longrightarrow>
              sint (GasLeft (snd r)) = min (sint btm sdiv sint (VMGasRate c)) (sint (MaxGasAmount c)))
        \<and> (fst r = None \<longrightarrow> sint (StorageGas (snd r)) = sint txSize * sint (StorageGasRate c))"
    if nn: "\<not> btm <s 0"
  proof -
    from nn have b0: "0 \<le> sint btm" by (simp add: sless_0_iff)
    have dok: "snd (DivInt64 btm (VMGasRate c)) \<longleftrightarrow> VMGasRate c \<noteq> 0"
      using inInt64_sdiv_nonneg [OF b0] by (simp add: DivInt64_ok)
    have dval: "VMGasRate c \<noteq> 0 \<Longrightarrow> sint (fst (DivInt64 btm (VMGasRate c))) = sint btm sdiv sint (VMGasRate c)"
      using dok DivInt64_val by blast
    show ?thesis
      using nn dok dval MulInt64_ok [of txSize "StorageGasRate c"] MulInt64_val [of txSize "StorageGasRate c"]
      by (auto simp: r_def setGas_def Let_def word_sless_alt min_def)
  qed
  have ex: "sint (GasLeft (snd r)) = min 1000000 (sint (MaxGasAmount c))"
    if h: "VMGasRate c = 100 \<and> btm = 100000000"
  proof -
    have nn: "\<not> btm <s 0" using h by (simp add: word_sless_alt)
    have "sint btm sdiv sint (VMGasRate c) = 1000000"
      using h by (simp add: signed_divide_int_def)
    then show ?thesis using pos [OF nn] h by simp
  qed
  show ?thesis using neg pos ex by blast
qed

theorem setGas_spec_witness:
  "(- 5 :: i64) <s 0
   \<and> setGas exampleConsensus exampleGas (- 5) 300 = (Some ErrGasCalculate, exampleGas)
   \<and> \<not> (100000000 :: i64) <s 0
   \<and> VMGasRate exampleConsensus = 100
   \<and> fst (setGas exampleConsensus exampleGas 100000000 300) = None
   \<and> sint (GasLeft (snd (setGas exampleConsensus exampleGas 100000000 300))) = 1000000
   \<and> sint (StorageGas (snd (setGas exampleConsensus exampleGas 100000000 300))) = 300"
  using setGas_spec [where c = exampleConsensus and g = exampleGas and btm = "- 5" and txSize = 300]
    setGas_spec [where c = exampleConsensus and g = exampleGas and btm = 100000000 and txSize = 300]
  by (simp add: exampleConsensus_def word_sless_alt inInt64_def MinInt64_def MaxInt64_def)

text \<open>
  C5. \<open>updateUsage\<close> fails with the gas-calculation error when the new amount of gas left is
  negative or the checked difference overflows, leaving the meter as it was. Otherwise it adds
  the difference to \<open>GasUsed\<close> and stores the new \<open>GasLeft\<close>, and it returns the over-credit
  error exactly when \<open>GasValid\<close> is still false and either the new \<open>GasUsed\<close> exceeds the free
  credit or \<open>StorageGas\<close> exceeds the new \<open>GasLeft\<close>.
\<close>

theorem updateUsage_spec:
  fixes c :: consensus and g :: GasState and gasLeft :: i64
  defines "r \<equiv> updateUsage c g gasLeft"
  shows "(gasLeft <s 0 \<longrightarrow> r = (Some ErrGasCalculate, g))
    \<and> (\<not> gasLeft <s 0 \<and> \<not> inInt64 (sint (GasLeft g) - sint gasLeft) \<longrightarrow> r = (Some ErrGasCalculate, g))
    \<and> (\<not> gasLeft <s 0 \<and> inInt64 (sint (GasLeft g) - sint gasLeft) \<longrightarrow>
          snd r = g\<lparr>GasUsed := GasUsed g + (GasLeft g - gasLeft), GasLeft := gasLeft\<rparr>
        \<and> sint (GasLeft g - gasLeft) = sint (GasLeft g) - sint gasLeft
        \<and> (fst r = None \<or> fst r = Some ErrOverGasCredit))
    \<and> (fst r = Some ErrOverGasCredit \<longleftrightarrow>
          \<not> gasLeft <s 0 \<and> inInt64 (sint (GasLeft g) - sint gasLeft)
        \<and> \<not> GasValid g
        \<and> (DefaultGasCredit c <s GasUsed g + (GasLeft g - gasLeft) \<or> gasLeft <s StorageGas g))"
  by (auto simp: r_def updateUsage_def Let_def SubInt64_def sint_sub_i64)

theorem updateUsage_spec_witness:
  "(- 1 :: i64) <s 0
   \<and> updateUsage exampleConsensus exampleGas (- 1) = (Some ErrGasCalculate, exampleGas)
   \<and> \<not> (1 :: i64) <s 0 \<and> \<not> inInt64 (sint (GasLeft (exampleGas\<lparr>GasLeft := - 9223372036854775808\<rparr>)) - sint (1 :: i64))
   \<and> updateUsage exampleConsensus (exampleGas\<lparr>GasLeft := - 9223372036854775808\<rparr>) 1
        = (Some ErrGasCalculate, exampleGas\<lparr>GasLeft := - 9223372036854775808\<rparr>)
   \<and> \<not> (900 :: i64) <s 0 \<and> inInt64 (sint (GasLeft exampleGas) - sint (900 :: i64))
   \<and> updateUsage exampleConsensus exampleGas 900 = (None, exampleGas\<lparr>GasUsed := 100, GasLeft := 900\<rparr>)
   \<and> fst (updateUsage exampleConsensus exampleGas 5) = Some ErrOverGasCredit"
proof -
  let ?g = "exampleGas\<lparr>GasLeft := - 9223372036854775808\<rparr>"
  have a: "updateUsage exampleConsensus exampleGas (- 1) = (Some ErrGasCalculate, exampleGas)"
    using updateUsage_spec [where c = exampleConsensus and g = exampleGas and gasLeft = "- 1"]
    by (simp add: word_sless_alt)
  have b: "updateUsage exampleConsensus ?g 1 = (Some ErrGasCalculate, ?g)"
    using updateUsage_spec [where c = exampleConsensus and g = ?g and gasLeft = 1]
    by (simp add: word_sless_alt exampleGas_def inInt64_def MinInt64_def MaxInt64_def)
  have c: "updateUsage exampleConsensus exampleGas 900 = (None, exampleGas\<lparr>GasUsed := 100, GasLeft := 900\<rparr>)"
    using updateUsage_spec [where c = exampleConsensus and g = exampleGas and gasLeft = 900]
    by (auto simp: word_sless_alt exampleGas_def exampleConsensus_def inInt64_def MinInt64_def MaxInt64_def prod_eq_iff)
  have d: "fst (updateUsage exampleConsensus exampleGas 5) = Some ErrOverGasCredit"
    using updateUsage_spec [where c = exampleConsensus and g = exampleGas and gasLeft = 5]
    by (simp add: word_sless_alt exampleGas_def exampleConsensus_def inInt64_def MinInt64_def MaxInt64_def)
  show ?thesis using a b c d
    by (simp add: word_sless_alt exampleGas_def inInt64_def MinInt64_def MaxInt64_def)
qed

section \<open>The coinbase case\<close>

text \<open>On a cache miss \<open>checkValid\<close> runs the coinbase case and stores what it returns.\<close>

lemma checkValid_Coinbase_miss:
  "cache s (EntryID env (ECoinbase e)) = None \<Longrightarrow>
   checkValid (Suc n) env vs s (ECoinbase e) =
     (case checkCoinbase env vs s e of
        None \<Rightarrow> None
      | Some Panic \<Rightarrow> Some Panic
      | Some (Ret (err, s')) \<Rightarrow>
          Some (Ret (err, s'\<lparr>cache := (cache s')(EntryID env (ECoinbase e) \<mapsto> err)\<rparr>)))"
  by (simp add: checkValidCall_def checkEntry_def Let_def)

text \<open>
  C6, as amended. For a coinbase entry whose destination and its asset id are present:
  the transaction must be the first one of the enclosing block, which may hold further
  transactions (\<open>ErrWrongCoinbaseTransaction\<close> otherwise, also without a block or with an
  empty one); then the destination asset must be the settlement asset
  (\<open>ErrWrongCoinbaseAsset\<close>); then the arbitrary data must not be longer than the limit
  (\<open>ErrCoinbaseArbitraryOversize\<close>); then the destination edge is checked, and when it
  passes \<open>GasValid\<close> is set to true whatever the gas meter holds.
\<close>

theorem checkCoinbase_spec:
  assumes "cb_WitnessDestination e = Some wd" and "dst_Value wd = Some v" and "AssetId v = Some a"
  shows "((block vs = None \<or> (\<exists>b. block vs = Some b \<and> (Transactions b = [] \<or> hd (Transactions b) \<noteq> tx_ptr (tx vs))))
            \<longrightarrow> checkCoinbase env vs s e = Some (Ret (Some ErrWrongCoinbaseTransaction, s)))
     \<and> ((\<exists>b rest. block vs = Some b \<and> Transactions b = tx_ptr (tx vs) # rest) \<longrightarrow>
          (a \<noteq> BTMAssetID (cons env) \<longrightarrow> checkCoinbase env vs s e = Some (Ret (Some ErrWrongCoinbaseAsset, s)))
        \<and> (a = BTMAssetID (cons env) \<longrightarrow>
             ((\<exists>arbitrary. cb_Arbitrary e = Some arbitrary
                   \<and> CoinbaseArbitrarySizeLimit (cons env) < int (length arbitrary))
                \<longrightarrow> checkCoinbase env vs s e = Some (Ret (Some ErrCoinbaseArbitraryOversize, s)))
           \<and> (\<not> (\<exists>arbitrary. cb_Arbitrary e = Some arbitrary
                   \<and> CoinbaseArbitrarySizeLimit (cons env) < int (length arbitrary))
                \<longrightarrow> checkCoinbase env vs s e =
                     (case checkValidDest env (vs\<lparr>destPos := 0\<rparr>) (Some wd) of
                        Panic \<Rightarrow> Some Panic
                      | Ret (Some err) \<Rightarrow> Some (Ret (Some err, s))
                      | Ret None \<Rightarrow> Some (Ret (None, s\<lparr>gasStatus := (gasStatus s)\<lparr>GasValid := True\<rparr>\<rparr>))))))"
proof -
  have 1: "checkCoinbase env vs s e = Some (Ret (Some ErrWrongCoinbaseTransaction, s))"
    if "block vs = None \<or> (\<exists>b. block vs = Some b \<and> (Transactions b = [] \<or> hd (Transactions b) \<noteq> tx_ptr (tx vs)))"
    using that by (auto simp: checkCoinbase_def hd_conv_nth)
  have 2: "(a \<noteq> BTMAssetID (cons env) \<longrightarrow> checkCoinbase env vs s e = Some (Ret (Some ErrWrongCoinbaseAsset, s)))
        \<and> (a = BTMAssetID (cons env) \<longrightarrow>
             ((\<exists>arbitrary. cb_Arbitrary e = Some arbitrary
                   \<and> CoinbaseArbitrarySizeLimit (cons env) < int (length arbitrary))
                \<longrightarrow> checkCoinbase env vs s e = Some (Ret (Some ErrCoinbaseArbitraryOversize, s)))
           \<and> (\<not> (\<exists>arbitrary. cb_Arbitrary e = Some arbitrary
                   \<and> CoinbaseArbitrarySizeLimit (cons env) < int (length arbitrary))
                \<longrightarrow> checkCoinbase env vs s e =
                     (case checkValidDest env (vs\<lparr>destPos := 0\<rparr>) (Some wd) of
                        Panic \<Rightarrow> Some Panic
                      | Ret (Some err) \<Rightarrow> Some (Ret (Some err, s))
                      | Ret None \<Rightarrow> Some (Ret (None, s\<lparr>gasStatus := (gasStatus s)\<lparr>GasValid := True\<rparr>\<rparr>)))))"
    if "\<exists>b rest. block vs = Some b \<and> Transactions b = tx_ptr (tx vs) # rest"
  proof -
    from that obtain b rest where b: "block vs = Some b" "Transactions b = tx_ptr (tx vs) # rest"
      by blast
    show ?thesis
      using assms b
      by (auto simp: checkCoinbase_def andThen_def pureResult_def setGasValidFlag_def
          split: option.splits res.splits)
  qed
  show ?thesis using 1 2 by blast
qed

theorem checkCoinbase_spec_witness:
  "checkCoinbase exampleEnv (exampleState\<lparr>block := None\<rparr>) exampleShared exampleCoinbase
      = Some (Ret (Some ErrWrongCoinbaseTransaction, exampleShared))
   \<and> checkCoinbase exampleEnv exampleState exampleShared
        (exampleCoinbase\<lparr>cb_WitnessDestination :=
           Some \<lparr>dst_Ref = Some 2, dst_Value = Some \<lparr>AssetId = Some 7, Amount = 50\<rparr>, dst_Position = 0\<rparr>\<rparr>)
      = Some (Ret (Some ErrWrongCoinbaseAsset, exampleShared))
   \<and> checkCoinbase exampleEnv exampleState exampleShared
        (exampleCoinbase\<lparr>cb_Arbitrary := Some (replicate 129 0)\<rparr>)
      = Some (Ret (Some ErrCoinbaseArbitraryOversize, exampleShared))
   \<and> checkCoinbase exampleEnv (exampleState\<lparr>entryID := 1\<rparr>) exampleShared exampleCoinbase
      = Some (Ret (None, exampleShared\<lparr>gasStatus := (gasStatus exampleShared)\<lparr>GasValid := True\<rparr>\<rparr>))"
proof -
  let ?wd = "\<lparr>dst_Ref = Some 2, dst_Value = Some btm50, dst_Position = 0\<rparr>"
  let ?wd7 = "\<lparr>dst_Ref = Some 2, dst_Value = Some \<lparr>AssetId = Some 7, Amount = 50\<rparr>, dst_Position = 0\<rparr>"
  have a: "checkCoinbase exampleEnv (exampleState\<lparr>block := None\<rparr>) exampleShared exampleCoinbase
      = Some (Ret (Some ErrWrongCoinbaseTransaction, exampleShared))"
    using checkCoinbase_spec [where e = exampleCoinbase and wd = ?wd and v = btm50 and a = 255
        and vs = "exampleState\<lparr>block := None\<rparr>" and env = exampleEnv and s = exampleShared]
    by (simp add: exampleCoinbase_def btm50_def)
  have b: "checkCoinbase exampleEnv exampleState exampleShared (exampleCoinbase\<lparr>cb_WitnessDestination := Some ?wd7\<rparr>)
      = Some (Ret (Some ErrWrongCoinbaseAsset, exampleShared))"
    using checkCoinbase_spec [where e = "exampleCoinbase\<lparr>cb_WitnessDestination := Some ?wd7\<rparr>"
        and wd = ?wd7 and v = "\<lparr>AssetId = Some 7, Amount = 50\<rparr>" and a = 7
        and vs = exampleState and env = exampleEnv and s = exampleShared]
    by (simp add: exampleState_def exampleTx_def exampleEnv_def exampleConsensus_def)
  have c: "checkCoinbase exampleEnv exampleState exampleShared (exampleCoinbase\<lparr>cb_Arbitrary := Some (replicate 129 0)\<rparr>)
      = Some (Ret (Some ErrCoinbaseArbitraryOversize, exampleShared))"
    using checkCoinbase_spec [where e = "exampleCoinbase\<lparr>cb_Arbitrary := Some (replicate 129 0)\<rparr>"
        and wd = ?wd and v = btm50 and a = 255
        and vs = exampleState and env = exampleEnv and s = exampleShared]
    by (simp add: exampleState_def exampleTx_def exampleEnv_def exampleConsensus_def exampleCoinbase_def btm50_def)
  have d: "checkCoinbase exampleEnv (exampleState\<lparr>entryID := 1\<rparr>) exampleShared exampleCoinbase
      = Some (Ret (None, exampleShared\<lparr>gasStatus := (gasStatus exampleShared)\<lparr>GasValid := True\<rparr>\<rparr>))"
    using checkCoinbase_spec [where e = exampleCoinbase and wd = ?wd and v = btm50 and a = 255
        and vs = "exampleState\<lparr>entryID := 1\<rparr>" and env = exampleEnv and s = exampleShared]
    by (simp add: example_defs checkValidDest_def destSource_def Equal_def)
  show ?thesis using a b c d by simp
qed

text \<open>
  The claim as stated asks for the transaction to be the sole transaction of the block. A
  block of two transactions whose first one carries the coinbase passes.
\<close>

theorem coinbase_not_sole_counterexample:
  "block exampleState = Some \<lparr>Transactions = [77, 78]\<rparr>
   \<and> tx_ptr (tx exampleState) = 77
   \<and> checkValid (Suc 0) exampleEnv (exampleState\<lparr>entryID := 1\<rparr>) exampleShared (ECoinbase exampleCoinbase)
       = Some (Ret (None, \<lparr>gasStatus = exampleGas\<lparr>GasValid := True\<rparr>, cache = [1 \<mapsto> None]\<rparr>))"
  by (simp add: checkValidCall_def checkEntry_def Let_def checkCoinbase_def example_defs
      checkValidDest_def destSource_def Equal_def andThen_def pureResult_def setGasValidFlag_def)

section \<open>The peg-in claim verifier\<close>

lemma IsValidPeginWitness_wrong_length:
  assumes "length stack \<noteq> 5"
  shows "IsValidPeginWitness env stack prevout =
     (case out_Source prevout of
        None \<Rightarrow> Panic
      | Some psrc \<Rightarrow>
          (case src_Value psrc of
             None \<Rightarrow> Panic
           | Some pval \<Rightarrow>
               (case out_ControlProgram prevout of
                  None \<Rightarrow> Panic
                | Some pprog \<Rightarrow> Ret (Some ErrPeginWitnessIsError))))"
  using assms by (auto simp: IsValidPeginWitness_def Let_def split: option.splits)

lemma IsValidPeginWitness_ok_length:
  assumes "IsValidPeginWitness env stack prevout = Ret None"
  shows "length stack = 5"
proof (rule ccontr)
  assume "length stack \<noteq> 5"
  from IsValidPeginWitness_wrong_length [OF this, of env prevout] assms
  show False by (simp split: option.splits)
qed

lemma checkClaim_guard:
  assumes "cl_SpentOutputId e = Some spentOutputId"
    and "txOutput env (tx vs) spentOutputId = Inr spentOutput"
    and "length (cl_Peginwitness e) < 5 \<or> cl_Peginwitness e ! 1 = None \<or> out_Source spentOutput = None"
  shows "checkClaim env vs s e = Some (Ret (Some ErrPeginNoWitness, s))"
  using assms by (simp add: checkClaim_def Let_def)

lemma checkClaim_success:
  assumes "checkClaim env vs s e = Some (Ret (None, s'))"
  shows "\<exists>spentOutputId spentOutput.
           cl_SpentOutputId e = Some spentOutputId
         \<and> txOutput env (tx vs) spentOutputId = Inr spentOutput
         \<and> length (cl_Peginwitness e) = 5 \<and> cl_Peginwitness e ! 1 \<noteq> None
         \<and> out_Source spentOutput \<noteq> None
         \<and> IsValidPeginWitness env (cl_Peginwitness e) spentOutput = Ret None"
proof -
  from assms obtain spentOutputId where a: "cl_SpentOutputId e = Some spentOutputId"
    by (auto simp: checkClaim_def split: option.splits)
  from assms a obtain spentOutput where b: "txOutput env (tx vs) spentOutputId = Inr spentOutput"
    by (auto simp: checkClaim_def split: sum.splits)
  have g: "\<not> (length (cl_Peginwitness e) < 5 \<or> cl_Peginwitness e ! 1 = None \<or> out_Source spentOutput = None)"
  proof
    assume "length (cl_Peginwitness e) < 5 \<or> cl_Peginwitness e ! 1 = None \<or> out_Source spentOutput = None"
    from checkClaim_guard [OF a b this, of s] assms show False by simp
  qed
  have v: "IsValidPeginWitness env (cl_Peginwitness e) spentOutput = Ret None"
    using assms a b g
    by (simp add: checkClaim_def Let_def split: res.splits option.splits)
  from IsValidPeginWitness_ok_length [OF v] g a b v show ?thesis by auto
qed

text \<open>
  C8. A stack whose length is not 5 never passes \<open>IsValidPeginWitness\<close>: the call panics on
  an incomplete previous output or returns the stack error, and its outcome is the same for
  all collaborators, so neither the decoders nor the merkle check have been consulted. The
  claim case of the dispatcher returns its own error, before the verifier is called, when
  the stack has fewer than 5 elements, element 1 is nil or the spent output has no source.
  A claim entry that validates has a stack of exactly 5 elements.
\<close>

theorem peginWitness_exactly_five:
  "(length stack \<noteq> 5 \<longrightarrow>
      IsValidPeginWitness env stack prevout \<noteq> Ret None
    \<and> (IsValidPeginWitness env stack prevout = Panic
        \<or> IsValidPeginWitness env stack prevout = Ret (Some ErrPeginWitnessIsError))
    \<and> IsValidPeginWitness env stack prevout = IsValidPeginWitness env' stack prevout)
   \<and> (cl_SpentOutputId e = Some spentOutputId
        \<and> txOutput env (tx vs) spentOutputId = Inr spentOutput
        \<and> (length (cl_Peginwitness e) < 5 \<or> cl_Peginwitness e ! 1 = None
             \<or> out_Source spentOutput = None)
      \<longrightarrow> checkClaim env vs s e = Some (Ret (Some ErrPeginNoWitness, s)))
   \<and> (checkClaim env vs s e = Some (Ret (None, s')) \<longrightarrow>
        length (cl_Peginwitness e) = 5 \<and> cl_Peginwitness e ! 1 \<noteq> None)
   \<and> (cache s (EntryID env (EClaim e)) = None
        \<and> checkValid (Suc n) env vs s (EClaim e) = Some (Ret (None, s')) \<longrightarrow>
        length (cl_Peginwitness e) = 5 \<and> cl_Peginwitness e ! 1 \<noteq> None)"
proof -
  have a: "IsValidPeginWitness env stack prevout \<noteq> Ret None
    \<and> (IsValidPeginWitness env stack prevout = Panic
        \<or> IsValidPeginWitness env stack prevout = Ret (Some ErrPeginWitnessIsError))
    \<and> IsValidPeginWitness env stack prevout = IsValidPeginWitness env' stack prevout"
    if "length stack \<noteq> 5"
    using IsValidPeginWitness_wrong_length [OF that, of env prevout]
      IsValidPeginWitness_wrong_length [OF that, of env' prevout]
    by (simp split: option.splits)
  have c: "length (cl_Peginwitness e) = 5 \<and> cl_Peginwitness e ! 1 \<noteq> None"
    if "checkClaim env vs s e = Some (Ret (None, s''))" for s''
    using checkClaim_success [OF that] by blast
  have d: "length (cl_Peginwitness e) = 5 \<and> cl_Peginwitness e ! 1 \<noteq> None"
    if "cache s (EntryID env (EClaim e)) = None"
       "checkValid (Suc n) env vs s (EClaim e) = Some (Ret (None, s'))"
  proof -
    from that obtain s'' where "checkClaim env vs s e = Some (Ret (None, s''))"
      by (auto simp: checkValidCall_def checkEntry_def Let_def split: option.splits res.splits)
    then show ?thesis by (rule c)
  qed
  show ?thesis using a checkClaim_guard c d by blast
qed

lemma exampleClaim_run:
  "checkClaim exampleEnv exampleClaimState exampleShared exampleClaim
     = Some (Ret (None, exampleShared\<lparr>gasStatus := exampleGas\<lparr>GasValid := True\<rparr>\<rparr>))"
  by (simp add: checkClaim_def IsValidPeginWitness_def checkPeginTx_def proofFlags_def NewOutput_def
      bytesOf_def Let_def claim_defs example_defs checkValidDest_def destSource_def Equal_def
      andThen_def pureResult_def setGasValidFlag_def)

theorem peginWitness_exactly_five_witness:
  "length (take 4 (cl_Peginwitness exampleClaim)) = 4
   \<and> IsValidPeginWitness exampleEnv (take 4 (cl_Peginwitness exampleClaim)) examplePriorOutput
       = Ret (Some ErrPeginWitnessIsError)
   \<and> checkClaim exampleEnv exampleClaimState exampleShared
        (exampleClaim\<lparr>cl_Peginwitness := take 4 (cl_Peginwitness exampleClaim)\<rparr>)
       = Some (Ret (Some ErrPeginNoWitness, exampleShared))
   \<and> checkClaim exampleEnv exampleClaimState exampleShared exampleClaim
       = Some (Ret (None, exampleShared\<lparr>gasStatus := exampleGas\<lparr>GasValid := True\<rparr>\<rparr>))
   \<and> checkValid (Suc 0) exampleEnv exampleClaimState exampleShared (EClaim exampleClaim)
       = Some (Ret (None, \<lparr>gasStatus = exampleGas\<lparr>GasValid := True\<rparr>, cache = [21 \<mapsto> None]\<rparr>))
   \<and> length (cl_Peginwitness exampleClaim) = 5"
proof -
  let ?e4 = "exampleClaim\<lparr>cl_Peginwitness := take 4 (cl_Peginwitness exampleClaim)\<rparr>"
  let ?s' = "exampleShared\<lparr>gasStatus := exampleGas\<lparr>GasValid := True\<rparr>\<rparr>"
  let ?s'' = "\<lparr>gasStatus = exampleGas\<lparr>GasValid := True\<rparr>, cache = [21 \<mapsto> None]\<rparr>"
  have len4: "length (take 4 (cl_Peginwitness exampleClaim)) = 4"
    by (simp add: exampleClaim_def)
  have a: "IsValidPeginWitness exampleEnv (take 4 (cl_Peginwitness exampleClaim)) examplePriorOutput
       = Ret (Some ErrPeginWitnessIsError)"
  proof -
    have "IsValidPeginWitness exampleEnv (take 4 (cl_Peginwitness exampleClaim)) examplePriorOutput = Panic
       \<or> IsValidPeginWitness exampleEnv (take 4 (cl_Peginwitness exampleClaim)) examplePriorOutput
           = Ret (Some ErrPeginWitnessIsError)"
      using peginWitness_exactly_five [where stack = "take 4 (cl_Peginwitness exampleClaim)"
          and env = exampleEnv and prevout = examplePriorOutput] len4 by simp
    moreover have "IsValidPeginWitness exampleEnv (take 4 (cl_Peginwitness exampleClaim)) examplePriorOutput \<noteq> Panic"
      by (simp add: IsValidPeginWitness_def examplePriorOutput_def exampleClaim_def Let_def)
    ultimately show ?thesis by simp
  qed
  have b: "checkClaim exampleEnv exampleClaimState exampleShared ?e4
       = Some (Ret (Some ErrPeginNoWitness, exampleShared))"
    using peginWitness_exactly_five [where e = ?e4 and spentOutputId = 41
        and spentOutput = examplePriorOutput and env = exampleEnv and vs = exampleClaimState
        and s = exampleShared and stack = "[]"]
    by (simp add: claim_defs exampleEnv_def)
  have c: "checkClaim exampleEnv exampleClaimState exampleShared exampleClaim = Some (Ret (None, ?s'))"
    by (rule exampleClaim_run)
  have d: "checkValid (Suc 0) exampleEnv exampleClaimState exampleShared (EClaim exampleClaim) = Some (Ret (None, ?s''))"
  proof -
    have id: "EntryID exampleEnv (EClaim exampleClaim) = 21"
      by (simp add: exampleEnv_def exampleEntryID_def)
    have ch: "cache exampleShared 21 = None"
      by (simp add: exampleShared_def)
    show ?thesis
      by (simp add: checkValidCall_def checkEntry_def Let_def id ch c) (simp add: exampleShared_def)
  qed
  have e: "length (cl_Peginwitness exampleClaim) = 5"
    using peginWitness_exactly_five [where e = exampleClaim and env = exampleEnv
        and vs = exampleClaimState and s = exampleShared and s' = ?s'' and n = 0 and stack = "[]"] d
    by (simp add: exampleEnv_def exampleEntryID_def exampleShared_def)
  show ?thesis using len4 a b c d e by simp
qed

lemma proofFlags_length_only: "proofFlags (mb\<lparr>Flags := map f (Flags mb)\<rparr>) = proofFlags mb"
  by (simp add: proofFlags_def)

lemma checkPeginTx_jsonUnmarshal:
  "checkPeginTx (env\<lparr>jsonUnmarshal := j\<rparr>) rawTx prevout amount script
     = checkPeginTx env rawTx prevout amount script"
  by (simp add: checkPeginTx_def cong: option.case_cong sum.case_cong if_cong)

text \<open>
  C7. The flags handed to the merkle check are the indices \<open>0, 1, 2, \<dots>\<close> of the proof's
  flags, not their values. So the verdict of the verifier does not depend on the flag values
  of the decoded proof: replacing every flag \<open>x\<close> by \<open>f x\<close>, for any \<open>f\<close>, changes nothing.
\<close>

theorem IsValidPeginWitness_flag_values_unused:
  "IsValidPeginWitness
     (env\<lparr>jsonUnmarshal := \<lambda>b. map_sum id (\<lambda>mb. mb\<lparr>Flags := map f (Flags mb)\<rparr>) (jsonUnmarshal env b)\<rparr>)
     stack prevout
   = IsValidPeginWitness env stack prevout"
proof (cases "jsonUnmarshal env (bytesOf (stack ! 4))")
  case (Inl err)
  then show ?thesis
    by (simp add: IsValidPeginWitness_def Let_def checkPeginTx_jsonUnmarshal
        split: option.splits sum.splits)
next
  case (Inr mb)
  then show ?thesis
    by (simp add: IsValidPeginWitness_def Let_def checkPeginTx_jsonUnmarshal proofFlags_length_only
        split: option.splits sum.splits)
qed

section \<open>Memoization\<close>

lemma andThen_RetE:
  assumes "andThen m k = Some (Ret (r, s'))"
  obtains (stop) "m = Some (Ret (r, s'))" "r \<noteq> None"
        | (go) s1 where "m = Some (Ret (None, s1))" "k s1 = Some (Ret (r, s'))"
  using assms by (auto simp: andThen_def split: option.splits res.splits)

lemma pureResult_RetD:
  "pureResult s x = Some (Ret (r, s')) \<Longrightarrow> s' = s \<and> x = Ret r"
  by (auto simp: pureResult_def split: res.splits)

lemma checkValidSrc_cache:
  assumes rec: "\<forall>vs s e r s'. rec vs s e = Some (Ret (r, s')) \<longrightarrow> cache s \<subseteq>\<^sub>m cache s'"
    and run: "checkValidSrc env rec vstate s src = Some (Ret (r, s'))"
  shows "cache s \<subseteq>\<^sub>m cache s'"
proof (cases "\<exists>v ref a e. src = Some v \<and> src_Ref v = Some ref \<and> Entries (tx vstate) ref = Some e
     \<and> \<not> (case src_Value v of None \<Rightarrow> True | Some x \<Rightarrow> AssetId x = None)")
  case False
  then have "s' = s"
    using run by (auto simp: checkValidSrc_def split: option.splits if_splits)
  then show ?thesis by simp
next
  case True
  then obtain v ref e where v: "src = Some v" "src_Ref v = Some ref" "Entries (tx vstate) ref = Some e"
    "\<not> (case src_Value v of None \<Rightarrow> True | Some x \<Rightarrow> AssetId x = None)" by blast
  from run v obtain k where
    at: "andThen (rec (vstate\<lparr>entryID := ref\<rparr>) s e) (\<lambda>s1. pureResult s1 (k s1)) = Some (Ret (r, s'))"
    by (simp add: checkValidSrc_def)
  from at show ?thesis
  proof (cases rule: andThen_RetE)
    case stop
    from stop(1) show ?thesis using rec by blast
  next
    case (go s1)
    then have "s' = s1" using pureResult_RetD by blast
    with rec [rule_format, OF go(1)] show ?thesis by simp
  qed
qed

lemma checkResults_cache:
  assumes rec: "\<forall>vs s e r s'. rec vs s e = Some (Ret (r, s')) \<longrightarrow> cache s \<subseteq>\<^sub>m cache s'"
  shows "checkResults rec vs s ids = Some (Ret (r, s')) \<Longrightarrow> cache s \<subseteq>\<^sub>m cache s'"
proof (induction ids arbitrary: s)
  case Nil
  then show ?case by simp
next
  case (Cons resID ids)
  then obtain rid where rid: "resID = Some rid"
    by (cases resID) simp_all
  let ?e = "case Entries (tx vs) rid of None \<Rightarrow> EOther | Some e \<Rightarrow> e"
  from Cons.prems rid
  have at: "andThen (rec (vs\<lparr>entryID := rid\<rparr>) s ?e) (\<lambda>s1. checkResults rec vs s1 ids) = Some (Ret (r, s'))"
    by (simp add: Let_def)
  from at show ?case
  proof (cases rule: andThen_RetE)
    case stop
    from stop(1) show ?thesis using rec by blast
  next
    case (go s1)
    from rec [rule_format, OF go(1)] Cons.IH [OF go(2)] show ?thesis by (rule map_le_trans)
  qed
qed

lemma checkGasInputs_cache:
  assumes rec: "\<forall>vs s e r s'. rec vs s e = Some (Ret (r, s')) \<longrightarrow> cache s \<subseteq>\<^sub>m cache s'"
  shows "checkGasInputs rec vs s ids = Some (Ret (r, s')) \<Longrightarrow> cache s \<subseteq>\<^sub>m cache s'"
proof (induction ids arbitrary: s)
  case Nil
  then show ?case by simp
next
  case (Cons i ids)
  show ?case
  proof (cases "Entries (tx vs) i")
    case None
    with Cons.prems show ?thesis by simp
  next
    case (Some e)
    with Cons.prems
    have at: "andThen (rec (vs\<lparr>entryID := i\<rparr>) s e) (\<lambda>s1. checkGasInputs rec vs s1 ids) = Some (Ret (r, s'))"
      by simp
    from at show ?thesis
    proof (cases rule: andThen_RetE)
      case stop
      from stop(1) show ?thesis using rec by blast
    next
      case (go s1)
      from rec [rule_format, OF go(1)] Cons.IH [OF go(2)] show ?thesis by (rule map_le_trans)
    qed
  qed
qed

lemma checkMuxSrcs_cache:
  assumes rec: "\<forall>vs s e r s'. rec vs s e = Some (Ret (r, s')) \<longrightarrow> cache s \<subseteq>\<^sub>m cache s'"
  shows "checkMuxSrcs env rec vs s i srcs = Some (Ret (r, s')) \<Longrightarrow> cache s \<subseteq>\<^sub>m cache s'"
proof (induction srcs arbitrary: s i)
  case Nil
  then show ?case by simp
next
  case (Cons src srcs)
  from Cons.prems
  have at: "andThen (checkValidSrc env rec (vs\<lparr>sourcePos := of_nat i\<rparr>) s src)
              (\<lambda>s1. checkMuxSrcs env rec vs s1 (Suc i) srcs) = Some (Ret (r, s'))"
    by simp
  from at show ?case
  proof (cases rule: andThen_RetE)
    case stop
    from checkValidSrc_cache [OF rec stop(1)] show ?thesis .
  next
    case (go s1)
    from checkValidSrc_cache [OF rec go(1)] Cons.IH [OF go(2)] show ?thesis
      by (rule map_le_trans)
  qed
qed

lemma checkTxHeader_cache:
  assumes rec: "\<forall>vs s e r s'. rec vs s e = Some (Ret (r, s')) \<longrightarrow> cache s \<subseteq>\<^sub>m cache s'"
    and run: "checkTxHeader rec vs s h = Some (Ret (r, s'))"
  shows "cache s \<subseteq>\<^sub>m cache s'"
  using run unfolding checkTxHeader_def
proof (cases rule: andThen_RetE)
  case stop
  from checkResults_cache [OF rec stop(1)] show ?thesis .
next
  case (go s1)
  then have "s' = s1" by (simp split: if_splits)
  with checkResults_cache [OF rec go(1)] show ?thesis by simp
qed

lemma checkMux_cache:
  assumes rec: "\<forall>vs s e r s'. rec vs s e = Some (Ret (r, s')) \<longrightarrow> cache s \<subseteq>\<^sub>m cache s'"
    and run: "checkMux env rec vs s m = Some (Ret (r, s'))"
  shows "cache s \<subseteq>\<^sub>m cache s'"
proof (cases "muxParity env (tx vs) (gasStatus s) m")
  case Panic
  with run show ?thesis by (simp add: checkMux_def)
next
  case (Ret p)
  obtain err g where p: "p = (err, g)" by (cases p)
  show ?thesis
  proof (cases err)
    case (Some e)
    with run Ret p have "s' = s\<lparr>gasStatus := g\<rparr>" by (simp add: checkMux_def)
    then show ?thesis by simp
  next
    case None
    let ?s0 = "s\<lparr>gasStatus := g\<rparr>"
    from run Ret p None
    have at: "andThen (checkGasInputs rec vs ?s0 (GasInputIDs (tx vs))) (\<lambda>s1.
          andThen (pureResult s1 (checkMuxDests env vs 0 (WitnessDestinations m))) (\<lambda>s2.
          andThen
            (if length (GasInputIDs (tx vs)) > 0 then
               (case setGasValid (gasStatus s2) of
                  (err, g') \<Rightarrow> Some (Ret (err, s2\<lparr>gasStatus := g'\<rparr>)))
             else Some (Ret (None, s2))) (\<lambda>s3.
          checkMuxSrcs env rec vs s3 0 (Sources m)))) = Some (Ret (r, s'))"
      by (simp add: checkMux_def)
    have c0: "cache s = cache ?s0" by simp
    from at show ?thesis
    proof (cases rule: andThen_RetE)
      case stop
      from checkGasInputs_cache [OF rec stop(1)] show ?thesis by simp
    next
      case (go s1)
      have c1: "cache s \<subseteq>\<^sub>m cache s1"
        using checkGasInputs_cache [OF rec go(1)] by simp
      from go(2) show ?thesis
      proof (cases rule: andThen_RetE)
        case stop
        then have "s' = s1" using pureResult_RetD by blast
        with c1 show ?thesis by simp
      next
        case (go s2)
        then have s2: "s2 = s1" using pureResult_RetD by blast
        from go(2) show ?thesis
        proof (cases rule: andThen_RetE)
          case stop
          then have "cache s' = cache s2"
            by (auto split: if_splits prod.splits)
          with c1 s2 show ?thesis by simp
        next
          case (go s3)
          then have "cache s3 = cache s2"
            by (auto split: if_splits prod.splits)
          with c1 s2 have "cache s \<subseteq>\<^sub>m cache s3" by simp
          then show ?thesis using checkMuxSrcs_cache [OF rec go(2)] by (rule map_le_trans)
        qed
      qed
    qed
  qed
qed

lemma checkIssuance_cache: "checkIssuance env vs s e = Some (Ret (r, s')) \<Longrightarrow> cache s' = cache s"
  by (auto simp: checkIssuance_def pureResult_def split: res.splits option.splits if_splits sum.splits prod.splits)

lemma checkSpend_cache: "checkSpend env vs s e = Some (Ret (r, s')) \<Longrightarrow> cache s' = cache s"
  by (auto simp: checkSpend_def pureResult_def split: res.splits option.splits if_splits sum.splits prod.splits)

lemma checkCoinbase_cache: "checkCoinbase env vs s e = Some (Ret (r, s')) \<Longrightarrow> cache s' = cache s"
  by (auto simp: checkCoinbase_def pureResult_def andThen_def setGasValidFlag_def
      split: res.splits option.splits if_splits)

lemma checkClaim_cache: "checkClaim env vs s e = Some (Ret (r, s')) \<Longrightarrow> cache s' = cache s"
  by (auto simp: checkClaim_def pureResult_def andThen_def setGasValidFlag_def Let_def
      split: res.splits option.splits if_splits sum.splits)

lemma checkEntry_cache:
  assumes rec: "\<forall>vs s e r s'. rec vs s e = Some (Ret (r, s')) \<longrightarrow> cache s \<subseteq>\<^sub>m cache s'"
    and run: "checkEntry env rec vs s e = Some (Ret (r, s'))"
  shows "cache s \<subseteq>\<^sub>m cache s'"
proof (cases e)
  case (ETxHeader h)
  with run have "checkTxHeader rec vs s h = Some (Ret (r, s'))" by (simp add: checkEntry_def)
  then show ?thesis by (rule checkTxHeader_cache [OF rec])
next
  case (EMux m)
  with run have "checkMux env rec vs s m = Some (Ret (r, s'))" by (simp add: checkEntry_def)
  then show ?thesis by (rule checkMux_cache [OF rec])
next
  case (EOutput out)
  with run have "checkValidSrc env rec (vs\<lparr>sourcePos := 0\<rparr>) s (out_Source out) = Some (Ret (r, s'))"
    by (simp add: checkEntry_def checkOutput_def)
  then show ?thesis by (rule checkValidSrc_cache [OF rec])
next
  case (ERetirement x)
  with run have "checkValidSrc env rec (vs\<lparr>sourcePos := 0\<rparr>) s (ret_Source x) = Some (Ret (r, s'))"
    by (simp add: checkEntry_def checkRetirement_def)
  then show ?thesis by (rule checkValidSrc_cache [OF rec])
next
  case (EIssuance x)
  with run show ?thesis using checkIssuance_cache by (simp add: checkEntry_def)
next
  case (ESpend x)
  with run show ?thesis using checkSpend_cache by (simp add: checkEntry_def)
next
  case (ECoinbase x)
  with run show ?thesis using checkCoinbase_cache by (simp add: checkEntry_def)
next
  case (EClaim x)
  with run show ?thesis using checkClaim_cache by (simp add: checkEntry_def)
next
  case (EDpos x)
  with run show ?thesis by (simp add: checkEntry_def)
next
  case EOther
  with run show ?thesis by (simp add: checkEntry_def)
qed

lemma checkValidCall_hit:
  "cache s (EntryID env e) = Some r \<Longrightarrow> checkValidCall env rec vs s e = Some (Ret (r, s))"
  by (simp add: checkValidCall_def)

lemma checkValidCall_stores:
  "checkValidCall env rec vs s e = Some (Ret (r, s')) \<Longrightarrow> cache s' (EntryID env e) = Some r"
  by (auto simp: checkValidCall_def Let_def split: option.splits res.splits)

lemma checkValidCall_cache:
  assumes rec: "\<forall>vs s e r s'. rec vs s e = Some (Ret (r, s')) \<longrightarrow> cache s \<subseteq>\<^sub>m cache s'"
    and run: "checkValidCall env rec vs s e = Some (Ret (r, s'))"
  shows "cache s \<subseteq>\<^sub>m cache s'"
proof (cases "cache s (EntryID env e)")
  case (Some c)
  with run have "s' = s" by (simp add: checkValidCall_def)
  then show ?thesis by simp
next
  case None
  with run obtain s1 where s1: "checkEntry env rec vs s e = Some (Ret (r, s1))"
      and s': "s' = s1\<lparr>cache := (cache s1)(EntryID env e \<mapsto> r)\<rparr>"
    by (auto simp: checkValidCall_def Let_def split: option.splits res.splits)
  have le: "cache s \<subseteq>\<^sub>m cache s1" by (rule checkEntry_cache [OF rec s1])
  show ?thesis
    unfolding s' using le None by (auto simp: map_le_def dom_def)
qed

lemma checkValid_cache:
  "checkValid n env vs s e = Some (Ret (r, s')) \<Longrightarrow> cache s \<subseteq>\<^sub>m cache s'"
proof (induction n arbitrary: vs s e r s')
  case 0
  then show ?case by simp
next
  case (Suc n)
  have rec: "\<forall>vs s e r s'. checkValid n env vs s e = Some (Ret (r, s')) \<longrightarrow> cache s \<subseteq>\<^sub>m cache s'"
    using Suc.IH by blast
  from Suc.prems have "checkValidCall env (checkValid n env) vs s e = Some (Ret (r, s'))" by simp
  then show ?case by (rule checkValidCall_cache [OF rec])
qed

text \<open>
  C9. A call of \<open>checkValid\<close> on an entry whose id is in the cache hands back the cached
  outcome and leaves the gas meter and the cache as they are, whatever the entry, the
  context and the collaborators are: the type switch is not run. A call on an id that is not
  in the cache runs the type switch and stores what it returns under the id. The cache only
  grows during a call. So after a call on an entry has returned \<open>r\<close>, every later call on
  the same id, at once or after any other calls of the run, returns \<open>r\<close> from the cache.
\<close>

theorem checkValid_memoized:
  "(cache s (EntryID env e) = Some r \<longrightarrow> checkValid (Suc n) env vs s e = Some (Ret (r, s)))
   \<and> (cache s (EntryID env e) = None \<longrightarrow>
        checkValid (Suc n) env vs s e =
          (case checkEntry env (checkValid n env) vs s e of
             None \<Rightarrow> None
           | Some Panic \<Rightarrow> Some Panic
           | Some (Ret (err, s1)) \<Rightarrow>
               Some (Ret (err, s1\<lparr>cache := (cache s1)(EntryID env e \<mapsto> err)\<rparr>))))
   \<and> (checkValid k env vs s e = Some (Ret (r, s')) \<longrightarrow>
        cache s' (EntryID env e) = Some r
      \<and> cache s \<subseteq>\<^sub>m cache s'
      \<and> checkValid (Suc m) env vs2 s' e = Some (Ret (r, s'))
      \<and> (checkValid j env vs3 s' e3 = Some (Ret (r3, s3)) \<longrightarrow>
           checkValid (Suc m) env vs2 s3 e = Some (Ret (r, s3))))"
proof -
  have hit: "checkValid (Suc i) env w t e = Some (Ret (r, t))" if "cache t (EntryID env e) = Some r" for i w t
    using that by (simp add: checkValidCall_hit)
  have miss: "cache s (EntryID env e) = None \<longrightarrow>
        checkValid (Suc n) env vs s e =
          (case checkEntry env (checkValid n env) vs s e of
             None \<Rightarrow> None
           | Some Panic \<Rightarrow> Some Panic
           | Some (Ret (err, s1)) \<Rightarrow>
               Some (Ret (err, s1\<lparr>cache := (cache s1)(EntryID env e \<mapsto> err)\<rparr>)))"
    by (simp add: checkValidCall_def Let_def)
  have later: "cache s' (EntryID env e) = Some r
      \<and> cache s \<subseteq>\<^sub>m cache s'
      \<and> checkValid (Suc m) env vs2 s' e = Some (Ret (r, s'))
      \<and> (checkValid j env vs3 s' e3 = Some (Ret (r3, s3)) \<longrightarrow>
           checkValid (Suc m) env vs2 s3 e = Some (Ret (r, s3)))"
    if run: "checkValid k env vs s e = Some (Ret (r, s'))"
  proof -
    from run obtain k' where k: "k = Suc k'" by (cases k) simp_all
    have st: "cache s' (EntryID env e) = Some r"
      using run unfolding k by (simp add: checkValidCall_stores)
    have mono: "cache s \<subseteq>\<^sub>m cache s'" using run by (rule checkValid_cache)
    have again: "checkValid (Suc m) env vs2 s' e = Some (Ret (r, s'))"
      using st by (rule hit)
    have far: "checkValid (Suc m) env vs2 s3 e = Some (Ret (r, s3))"
      if "checkValid j env vs3 s' e3 = Some (Ret (r3, s3))"
    proof -
      from that have "cache s' \<subseteq>\<^sub>m cache s3" by (rule checkValid_cache)
      with st have "cache s3 (EntryID env e) = Some r"
        by (auto simp: map_le_def dom_def)
      then show ?thesis by (rule hit)
    qed
    show ?thesis using st mono again far by blast
  qed
  show ?thesis using hit miss later by blast
qed

lemma exampleTx_coinbase:
  "checkValid (Suc 0) exampleEnv (exampleState\<lparr>entryID := 1, sourcePos := 0\<rparr>) exampleShared (ECoinbase exampleCoinbase)
     = Some (Ret (None, \<lparr>gasStatus = exampleGas\<lparr>GasValid := True\<rparr>, cache = [1 \<mapsto> None]\<rparr>))"
  by (simp add: run_defs example_defs)

lemma exampleTx_run:
  "checkValid (Suc (Suc (Suc (Suc 0)))) exampleEnv exampleState exampleShared (ETxHeader exampleHeader)
     = Some (Ret (None, exampleFinal))"
  by (simp add: run_defs example_defs exampleFinal_def exampleGas_def word_sless_alt)

theorem checkValid_memoized_witness:
  "checkValid (Suc (Suc (Suc (Suc 0)))) exampleEnv exampleState exampleShared (ETxHeader exampleHeader)
      = Some (Ret (None, exampleFinal))
   \<and> cache exampleFinal (EntryID exampleEnv (ETxHeader exampleHeader)) = Some None
   \<and> cache exampleShared (EntryID exampleEnv (ETxHeader exampleHeader)) = None
   \<and> checkValid (Suc 0) exampleEnv (exampleState\<lparr>entryID := 7\<rparr>) exampleFinal (ETxHeader exampleHeader)
      = Some (Ret (None, exampleFinal))
   \<and> cache exampleFinal (EntryID exampleEnv (EMux exampleMux)) = Some None
   \<and> checkValid (Suc 0) exampleEnv exampleState exampleFinal (EMux exampleMux)
      = Some (Ret (None, exampleFinal))
   \<and> cache exampleShared (EntryID exampleEnv (EDpos \<lparr>dp_WitnessDestination = None\<rparr>)) = None
   \<and> checkValid (Suc 0) exampleEnv exampleState exampleShared (EDpos \<lparr>dp_WitnessDestination = None\<rparr>)
      = Some (Ret (None, exampleShared\<lparr>cache := [5 \<mapsto> None]\<rparr>))"
proof -
  let ?h = "ETxHeader exampleHeader"
  let ?d = "EDpos \<lparr>dp_WitnessDestination = None\<rparr>"
  have run: "checkValid (Suc (Suc (Suc (Suc 0)))) exampleEnv exampleState exampleShared ?h
      = Some (Ret (None, exampleFinal))"
    by (rule exampleTx_run)
  note T = checkValid_memoized [where env = exampleEnv and e = ?h and s = exampleShared
      and s' = exampleFinal and r = None and vs = exampleState and k = "Suc (Suc (Suc (Suc 0)))"
      and m = 0 and ?vs2.0 = "exampleState\<lparr>entryID := 7\<rparr>" and j = 0 and n = 0]
  have a: "cache exampleFinal (EntryID exampleEnv ?h) = Some None"
    using T run by blast
  have a0: "cache exampleShared (EntryID exampleEnv ?h) = None"
    by (simp add: exampleShared_def)
  have b: "checkValid (Suc 0) exampleEnv (exampleState\<lparr>entryID := 7\<rparr>) exampleFinal ?h
      = Some (Ret (None, exampleFinal))"
    using T run by blast
  have c0: "cache exampleFinal (EntryID exampleEnv (EMux exampleMux)) = Some None"
    by (simp add: exampleFinal_def exampleEnv_def exampleEntryID_def)
  have c: "checkValid (Suc 0) exampleEnv exampleState exampleFinal (EMux exampleMux)
      = Some (Ret (None, exampleFinal))"
    using checkValid_memoized [where env = exampleEnv and e = "EMux exampleMux" and s = exampleFinal
      and r = None and vs = exampleState and n = 0 and k = 0] c0 by simp
  have d0: "cache exampleShared (EntryID exampleEnv ?d) = None"
    by (simp add: exampleShared_def)
  have d: "checkValid (Suc 0) exampleEnv exampleState exampleShared ?d
      = Some (Ret (None, exampleShared\<lparr>cache := [5 \<mapsto> None]\<rparr>))"
    using checkValid_memoized [where env = exampleEnv and e = ?d and s = exampleShared
      and vs = exampleState and n = 0 and k = 0] d0
    by (simp add: checkEntry_def exampleEnv_def exampleEntryID_def exampleShared_def)
  show ?thesis using run a a0 b c0 c d0 d by simp
qed

section \<open>Reference integrity\<close>

lemma checkValidSrc_compare:
  assumes "src_Ref src = Some ref" and "src_Value src = Some v" and "AssetId v = Some a"
    and "Entries (tx vstate) ref = Some e"
    and "rec (vstate\<lparr>entryID := ref\<rparr>) s e = Some (Ret (None, s1))"
    and "srcDest e (src_Position src) = Inr (Some dest)"
    and "dst_Ref dest = Some r" and "dst_Value dest = Some dv" and "AssetId dv = Some da"
  shows "checkValidSrc env rec vstate s (Some src) =
     Some (Ret (if r \<noteq> entryID vstate then Some ErrMismatchedReference
                else if dst_Position dest \<noteq> sourcePos vstate then Some ErrMismatchedPosition
                else if \<not> (Amount dv = Amount v \<and> da = a) then Some ErrMismatchedValue
                else None, s1))"
  using assms by (simp add: checkValidSrc_def andThen_def pureResult_def Equal_def)

lemma checkValidDest_compare:
  assumes "dst_Ref vd = Some ref" and "dst_Value vd = Some v" and "AssetId v = Some a"
    and "Entries (tx vs) ref = Some e"
    and "destSource e (dst_Position vd) = Inr (Some src)"
    and "src_Ref src = Some r" and "src_Value src = Some sv" and "AssetId sv = Some sa"
  shows "checkValidDest env vs (Some vd) =
     Ret (if r \<noteq> entryID vs then Some ErrMismatchedReference
          else if src_Position src \<noteq> destPos vs then Some ErrMismatchedPosition
          else if \<not> (Amount sv = Amount v \<and> sa = a) then Some ErrMismatchedValue
          else None)"
  using assms by (simp add: checkValidDest_def Equal_def)

lemma checkValidSrc_success:
  assumes "checkValidSrc env rec vstate s (Some src) = Some (Ret (None, s1))"
  shows "\<exists>ref v a e dest dv.
           src_Ref src = Some ref \<and> src_Value src = Some v \<and> AssetId v = Some a
         \<and> Entries (tx vstate) ref = Some e
         \<and> rec (vstate\<lparr>entryID := ref\<rparr>) s e = Some (Ret (None, s1))
         \<and> srcDest e (src_Position src) = Inr (Some dest)
         \<and> dst_Ref dest = Some (entryID vstate)
         \<and> dst_Position dest = sourcePos vstate
         \<and> dst_Value dest = Some dv \<and> AssetId dv = Some a \<and> Amount dv = Amount v"
proof -
  from assms obtain ref where ref: "src_Ref src = Some ref"
    by (auto simp: checkValidSrc_def split: option.splits)
  from assms ref obtain v a where v: "src_Value src = Some v" "AssetId v = Some a"
    by (auto simp: checkValidSrc_def split: option.splits if_splits)
  from assms ref v obtain e where e: "Entries (tx vstate) ref = Some e"
    by (auto simp: checkValidSrc_def split: option.splits)
  from assms ref v e have run: "rec (vstate\<lparr>entryID := ref\<rparr>) s e = Some (Ret (None, s1))"
    by (auto simp: checkValidSrc_def andThen_def pureResult_def split: option.splits res.splits if_splits sum.splits)
  from assms ref v e run obtain dest where d: "srcDest e (src_Position src) = Inr (Some dest)"
    by (auto simp: checkValidSrc_def andThen_def pureResult_def split: option.splits sum.splits)
  from assms ref v e run d have cmp: "dst_Ref dest = Some (entryID vstate)" "dst_Position dest = sourcePos vstate"
      "Equal (dst_Value dest) (Some v) = Some True"
    by (auto simp: checkValidSrc_def andThen_def pureResult_def split: option.splits if_splits)
  from cmp(3) v obtain dv where dv: "dst_Value dest = Some dv" "AssetId dv = Some a" "Amount dv = Amount v"
    by (auto simp: Equal_def split: option.splits)
  show ?thesis using ref v e run d cmp dv by blast
qed

lemma edge_src_implies_dest:
  assumes cur: "Entries (tx vstate) (entryID vstate) = Some cur"
    and slot: "destSource cur (sourcePos vstate) = Inr (Some src)"
    and ok: "checkValidSrc env rec vstate s (Some src) = Some (Ret (None, s1))"
  shows "\<exists>ref e dest. src_Ref src = Some ref \<and> Entries (tx vstate) ref = Some e
           \<and> srcDest e (src_Position src) = Inr (Some dest)
           \<and> checkValidDest env (vstate\<lparr>entryID := ref, destPos := src_Position src\<rparr>) (Some dest) = Ret None"
proof -
  from checkValidSrc_success [OF ok] obtain ref v a e dest dv where
    f: "src_Ref src = Some ref" "src_Value src = Some v" "AssetId v = Some a"
       "Entries (tx vstate) ref = Some e"
       "srcDest e (src_Position src) = Inr (Some dest)"
       "dst_Ref dest = Some (entryID vstate)" "dst_Position dest = sourcePos vstate"
       "dst_Value dest = Some dv" "AssetId dv = Some a" "Amount dv = Amount v"
    by blast
  let ?vs = "vstate\<lparr>entryID := ref, destPos := src_Position src\<rparr>"
  have "checkValidDest env ?vs (Some dest) =
     Ret (if ref \<noteq> entryID ?vs then Some ErrMismatchedReference
          else if src_Position src \<noteq> destPos ?vs then Some ErrMismatchedPosition
          else if \<not> (Amount v = Amount dv \<and> a = a) then Some ErrMismatchedValue
          else None)"
    by (rule checkValidDest_compare [where ref = "entryID vstate" and e = cur])
       (use f cur slot in simp_all)
  then have "checkValidDest env ?vs (Some dest) = Ret None"
    using f by simp
  with f show ?thesis by blast
qed

lemma edge_dest_implies_src:
  assumes cur: "Entries (tx vstate) (entryID vstate) = Some cur"
    and slot: "destSource cur (sourcePos vstate) = Inr (Some src)"
    and ref: "src_Ref src = Some ref" and e: "Entries (tx vstate) ref = Some e"
    and run: "rec (vstate\<lparr>entryID := ref\<rparr>) s e = Some (Ret (None, s1))"
    and d: "srcDest e (src_Position src) = Inr (Some dest)"
    and bck: "dst_Ref dest = Some (entryID vstate)" "dst_Position dest = sourcePos vstate"
    and ok: "checkValidDest env (vstate\<lparr>entryID := ref, destPos := src_Position src\<rparr>) (Some dest) = Ret None"
  shows "checkValidSrc env rec vstate s (Some src) = Some (Ret (None, s1))"
proof -
  let ?vs = "vstate\<lparr>entryID := ref, destPos := src_Position src\<rparr>"
  from ok obtain dv da where dv: "dst_Value dest = Some dv" "AssetId dv = Some da"
    by (auto simp: checkValidDest_def split: option.splits if_splits)
  from ok bck dv cur slot have eq: "Equal (src_Value src) (Some dv) = Some True"
    by (auto simp: checkValidDest_def split: option.splits if_splits)
  then obtain v where v: "src_Value src = Some v" "AssetId v = Some da" "Amount v = Amount dv"
    using dv by (auto simp: Equal_def split: option.splits)
  have "checkValidSrc env rec vstate s (Some src) =
     Some (Ret (if entryID vstate \<noteq> entryID vstate then Some ErrMismatchedReference
                else if dst_Position dest \<noteq> sourcePos vstate then Some ErrMismatchedPosition
                else if \<not> (Amount dv = Amount v \<and> da = da) then Some ErrMismatchedValue
                else None, s1))"
    by (rule checkValidSrc_compare [where rec = rec and ref = ref and e = e, OF ref v(1,2) e run d bck(1) dv])
  then show ?thesis using bck v by simp
qed

text \<open>
  C2. On an edge whose two ends are present, \<open>checkValidSrc\<close> (after the referenced entry
  has validated) and \<open>checkValidDest\<close> compare three things in this order: the
  back-reference of the other end with the current entry id (\<open>ErrMismatchedReference\<close>), its
  recorded slot with the current slot (\<open>ErrMismatchedPosition\<close>), and its asset and amount
  with this end's (\<open>ErrMismatchedValue\<close>); they succeed exactly when all three agree, so
  changing any one of the three on either side of a matching edge turns success into the
  corresponding error. The two checks agree: when the source check of an entry's source
  slot succeeds, the destination check run from the referenced entry on the destination it
  reached succeeds, and conversely when that destination points back at the source slot.
\<close>

theorem edge_checks_agree:
  "(src_Ref src = Some ref \<and> src_Value src = Some v \<and> AssetId v = Some a
      \<and> Entries (tx vstate) ref = Some e
      \<and> checkValid n env (vstate\<lparr>entryID := ref\<rparr>) s e = Some (Ret (None, s1))
      \<and> srcDest e (src_Position src) = Inr (Some dest)
      \<and> dst_Ref dest = Some r \<and> dst_Value dest = Some dv \<and> AssetId dv = Some da
    \<longrightarrow> checkValidSrc env (checkValid n env) vstate s (Some src) =
          Some (Ret (if r \<noteq> entryID vstate then Some ErrMismatchedReference
                     else if dst_Position dest \<noteq> sourcePos vstate then Some ErrMismatchedPosition
                     else if \<not> (Amount dv = Amount v \<and> da = a) then Some ErrMismatchedValue
                     else None, s1)))
   \<and> (dst_Ref vd = Some ref' \<and> dst_Value vd = Some v' \<and> AssetId v' = Some a'
      \<and> Entries (tx vs) ref' = Some e'
      \<and> destSource e' (dst_Position vd) = Inr (Some src')
      \<and> src_Ref src' = Some r' \<and> src_Value src' = Some sv \<and> AssetId sv = Some sa
    \<longrightarrow> checkValidDest env vs (Some vd) =
          Ret (if r' \<noteq> entryID vs then Some ErrMismatchedReference
               else if src_Position src' \<noteq> destPos vs then Some ErrMismatchedPosition
               else if \<not> (Amount sv = Amount v' \<and> sa = a') then Some ErrMismatchedValue
               else None))
   \<and> (Entries (tx vstate) (entryID vstate) = Some cur
      \<and> destSource cur (sourcePos vstate) = Inr (Some src)
      \<and> checkValidSrc env (checkValid n env) vstate s (Some src) = Some (Ret (None, s1))
    \<longrightarrow> (\<exists>ref e dest. src_Ref src = Some ref \<and> Entries (tx vstate) ref = Some e
           \<and> srcDest e (src_Position src) = Inr (Some dest)
           \<and> checkValidDest env (vstate\<lparr>entryID := ref, destPos := src_Position src\<rparr>) (Some dest)
                = Ret None))
   \<and> (Entries (tx vstate) (entryID vstate) = Some cur
      \<and> destSource cur (sourcePos vstate) = Inr (Some src)
      \<and> src_Ref src = Some ref \<and> Entries (tx vstate) ref = Some e
      \<and> checkValid n env (vstate\<lparr>entryID := ref\<rparr>) s e = Some (Ret (None, s1))
      \<and> srcDest e (src_Position src) = Inr (Some dest)
      \<and> dst_Ref dest = Some (entryID vstate) \<and> dst_Position dest = sourcePos vstate
      \<and> checkValidDest env (vstate\<lparr>entryID := ref, destPos := src_Position src\<rparr>) (Some dest) = Ret None
    \<longrightarrow> checkValidSrc env (checkValid n env) vstate s (Some src) = Some (Ret (None, s1)))"
proof (intro conjI impI)
  assume "src_Ref src = Some ref \<and> src_Value src = Some v \<and> AssetId v = Some a
      \<and> Entries (tx vstate) ref = Some e
      \<and> checkValid n env (vstate\<lparr>entryID := ref\<rparr>) s e = Some (Ret (None, s1))
      \<and> srcDest e (src_Position src) = Inr (Some dest)
      \<and> dst_Ref dest = Some r \<and> dst_Value dest = Some dv \<and> AssetId dv = Some da"
  then show "checkValidSrc env (checkValid n env) vstate s (Some src) =
          Some (Ret (if r \<noteq> entryID vstate then Some ErrMismatchedReference
                     else if dst_Position dest \<noteq> sourcePos vstate then Some ErrMismatchedPosition
                     else if \<not> (Amount dv = Amount v \<and> da = a) then Some ErrMismatchedValue
                     else None, s1))"
    by (intro checkValidSrc_compare [where rec = "checkValid n env" and ref = ref and e = e]) simp_all
next
  assume "dst_Ref vd = Some ref' \<and> dst_Value vd = Some v' \<and> AssetId v' = Some a'
      \<and> Entries (tx vs) ref' = Some e'
      \<and> destSource e' (dst_Position vd) = Inr (Some src')
      \<and> src_Ref src' = Some r' \<and> src_Value src' = Some sv \<and> AssetId sv = Some sa"
  then show "checkValidDest env vs (Some vd) =
          Ret (if r' \<noteq> entryID vs then Some ErrMismatchedReference
               else if src_Position src' \<noteq> destPos vs then Some ErrMismatchedPosition
               else if \<not> (Amount sv = Amount v' \<and> sa = a') then Some ErrMismatchedValue
               else None)"
    by (intro checkValidDest_compare [where ref = ref' and e = e']) simp_all
next
  assume "Entries (tx vstate) (entryID vstate) = Some cur
      \<and> destSource cur (sourcePos vstate) = Inr (Some src)
      \<and> checkValidSrc env (checkValid n env) vstate s (Some src) = Some (Ret (None, s1))"
  then show "\<exists>ref e dest. src_Ref src = Some ref \<and> Entries (tx vstate) ref = Some e
           \<and> srcDest e (src_Position src) = Inr (Some dest)
           \<and> checkValidDest env (vstate\<lparr>entryID := ref, destPos := src_Position src\<rparr>) (Some dest)
                = Ret None"
    using edge_src_implies_dest by blast
next
  assume "Entries (tx vstate) (entryID vstate) = Some cur
      \<and> destSource cur (sourcePos vstate) = Inr (Some src)
      \<and> src_Ref src = Some ref \<and> Entries (tx vstate) ref = Some e
      \<and> checkValid n env (vstate\<lparr>entryID := ref\<rparr>) s e = Some (Ret (None, s1))
      \<and> srcDest e (src_Position src) = Inr (Some dest)
      \<and> dst_Ref dest = Some (entryID vstate) \<and> dst_Position dest = sourcePos vstate
      \<and> checkValidDest env (vstate\<lparr>entryID := ref, destPos := src_Position src\<rparr>) (Some dest) = Ret None"
  then show "checkValidSrc env (checkValid n env) vstate s (Some src) = Some (Ret (None, s1))"
    by (intro edge_dest_implies_src [where cur = cur and ref = ref and e = e and dest = dest]) simp_all
qed

lemma exampleCoinbase_valid:
  assumes "tx vs = exampleTx" and "block vs = Some \<lparr>Transactions = [77, 78]\<rparr>" and "entryID vs = 1"
  shows "checkValid (Suc 0) exampleEnv vs exampleShared (ECoinbase exampleCoinbase)
     = Some (Ret (None, exampleAfterCoinbase))"
  using assms by (simp add: run_defs example_defs exampleAfterCoinbase_def)

theorem edge_checks_agree_witness:
  "checkValidSrc exampleEnv (checkValid (Suc 0) exampleEnv) (exampleState\<lparr>entryID := 2\<rparr>) exampleShared
      (Some exampleMuxSource) = Some (Ret (None, exampleAfterCoinbase))
   \<and> checkValidSrc exampleEnv (checkValid (Suc 0) exampleEnv) (exampleState\<lparr>entryID := 3\<rparr>) exampleShared
      (Some exampleMuxSource) = Some (Ret (Some ErrMismatchedReference, exampleAfterCoinbase))
   \<and> checkValidSrc exampleEnv (checkValid (Suc 0) exampleEnv) (exampleState\<lparr>entryID := 2, sourcePos := 1\<rparr>)
      exampleShared (Some exampleMuxSource) = Some (Ret (Some ErrMismatchedPosition, exampleAfterCoinbase))
   \<and> checkValidSrc exampleEnv (checkValid (Suc 0) exampleEnv) (exampleState\<lparr>entryID := 2\<rparr>) exampleShared
      (Some (exampleMuxSource\<lparr>src_Value := Some \<lparr>AssetId = Some 255, Amount = 51\<rparr>\<rparr>))
        = Some (Ret (Some ErrMismatchedValue, exampleAfterCoinbase))
   \<and> checkValidDest exampleEnv (exampleState\<lparr>entryID := 1\<rparr>) (Some exampleCoinbaseDest) = Ret None
   \<and> checkValidDest exampleEnv (exampleState\<lparr>entryID := 4\<rparr>) (Some exampleCoinbaseDest)
        = Ret (Some ErrMismatchedReference)
   \<and> checkValidDest exampleEnv (exampleState\<lparr>entryID := 1, destPos := 1\<rparr>) (Some exampleCoinbaseDest)
        = Ret (Some ErrMismatchedPosition)
   \<and> checkValidDest exampleEnv (exampleState\<lparr>entryID := 1\<rparr>)
        (Some (exampleCoinbaseDest\<lparr>dst_Value := Some \<lparr>AssetId = Some 7, Amount = 50\<rparr>\<rparr>))
        = Ret (Some ErrMismatchedValue)
   \<and> checkValidDest exampleEnv (exampleState\<lparr>entryID := 1, destPos := src_Position exampleMuxSource\<rparr>)
        (Some exampleCoinbaseDest) = Ret None"
proof -
  let ?rec = "checkValid (Suc 0) exampleEnv"
  let ?vs = "exampleState\<lparr>entryID := 2\<rparr>"
  let ?cb = "ECoinbase exampleCoinbase"
  have ent1: "Entries (tx vs) 1 = Some ?cb" if "tx vs = exampleTx" for vs
    using that by (simp add: exampleTx_def)
  have ent2: "Entries (tx vs) 2 = Some (EMux exampleMux)" if "tx vs = exampleTx" for vs
    using that by (simp add: exampleTx_def)
  have sd: "srcDest ?cb 0 = Inr (Some exampleCoinbaseDest)"
    by (simp add: srcDest_def exampleCoinbase_def exampleCoinbaseDest_def)
  have ds: "destSource (EMux exampleMux) 0 = Inr (Some exampleMuxSource)"
    by (simp add: destSource_def exampleMux_def exampleMuxSource_def)
  have run: "?rec (vs\<lparr>entryID := 1\<rparr>) exampleShared ?cb = Some (Ret (None, exampleAfterCoinbase))"
    if "tx vs = exampleTx" "block vs = Some \<lparr>Transactions = [77, 78]\<rparr>" for vs
    by (rule exampleCoinbase_valid) (use that in simp_all)
  have run3: "?rec (exampleState\<lparr>entryID := 3, entryID := 1\<rparr>) exampleShared ?cb
      = Some (Ret (None, exampleAfterCoinbase))"
    by (rule run) (simp_all add: exampleState_def)
  have run2: "?rec (exampleState\<lparr>entryID := 2, entryID := 1\<rparr>) exampleShared ?cb
      = Some (Ret (None, exampleAfterCoinbase))"
    by (rule run) (simp_all add: exampleState_def)
  have run21: "?rec (exampleState\<lparr>entryID := 2, sourcePos := 1, entryID := 1\<rparr>) exampleShared ?cb
      = Some (Ret (None, exampleAfterCoinbase))"
    by (rule run) (simp_all add: exampleState_def)
  note A = edge_checks_agree [THEN conjunct1, rule_format]
  note B = edge_checks_agree [THEN conjunct2, THEN conjunct1, rule_format]
  note C = edge_checks_agree [THEN conjunct2, THEN conjunct2, THEN conjunct1, rule_format]
  note D = edge_checks_agree [THEN conjunct2, THEN conjunct2, THEN conjunct2, rule_format]
  note ex = exampleMuxSource_def exampleCoinbaseDest_def btm50_def exampleState_def
  have b: "checkValidSrc exampleEnv ?rec (exampleState\<lparr>entryID := 3\<rparr>) exampleShared (Some exampleMuxSource)
      = Some (Ret (Some ErrMismatchedReference, exampleAfterCoinbase))"
    by (subst A [where ref = 1 and v = btm50 and a = 255 and e = ?cb and ?s1.0 = exampleAfterCoinbase
          and dest = exampleCoinbaseDest and r = 2 and dv = btm50 and da = 255])
       (use ent1 [of "exampleState\<lparr>entryID := 3\<rparr>"] sd run3
         in \<open>simp_all add: ex\<close>)
  have c: "checkValidSrc exampleEnv ?rec (exampleState\<lparr>entryID := 2, sourcePos := 1\<rparr>) exampleShared
      (Some exampleMuxSource) = Some (Ret (Some ErrMismatchedPosition, exampleAfterCoinbase))"
    by (subst A [where ref = 1 and v = btm50 and a = 255 and e = ?cb and ?s1.0 = exampleAfterCoinbase
          and dest = exampleCoinbaseDest and r = 2 and dv = btm50 and da = 255])
       (use ent1 [of "exampleState\<lparr>entryID := 2, sourcePos := 1\<rparr>"] sd run21
         in \<open>simp_all add: ex\<close>)
  let ?src51 = "exampleMuxSource\<lparr>src_Value := Some \<lparr>AssetId = Some 255, Amount = 51\<rparr>\<rparr>"
  have d: "checkValidSrc exampleEnv ?rec ?vs exampleShared (Some ?src51)
      = Some (Ret (Some ErrMismatchedValue, exampleAfterCoinbase))"
    by (subst A [where ref = 1 and v = "\<lparr>AssetId = Some 255, Amount = 51\<rparr>" and a = 255 and e = ?cb
          and ?s1.0 = exampleAfterCoinbase and dest = exampleCoinbaseDest and r = 2 and dv = btm50
          and da = 255])
       (use ent1 [of ?vs] sd run2 in \<open>simp_all add: ex\<close>)
  have a: "checkValidSrc exampleEnv ?rec ?vs exampleShared (Some exampleMuxSource)
      = Some (Ret (None, exampleAfterCoinbase))"
    by (subst A [where ref = 1 and v = btm50 and a = 255 and e = ?cb and ?s1.0 = exampleAfterCoinbase
          and dest = exampleCoinbaseDest and r = 2 and dv = btm50 and da = 255])
       (use ent1 [of ?vs] sd run2 in \<open>simp_all add: ex\<close>)
  have e: "checkValidDest exampleEnv (exampleState\<lparr>entryID := 1\<rparr>) (Some exampleCoinbaseDest) = Ret None"
    by (subst B [where ref' = 2 and v' = btm50 and a' = 255 and e' = "EMux exampleMux"
          and src' = exampleMuxSource and r' = 1 and sv = btm50 and sa = 255])
       (use ent2 [of "exampleState\<lparr>entryID := 1\<rparr>"] ds in \<open>simp_all add: ex\<close>)
  have f: "checkValidDest exampleEnv (exampleState\<lparr>entryID := 4\<rparr>) (Some exampleCoinbaseDest)
        = Ret (Some ErrMismatchedReference)"
    by (subst B [where ref' = 2 and v' = btm50 and a' = 255 and e' = "EMux exampleMux"
          and src' = exampleMuxSource and r' = 1 and sv = btm50 and sa = 255])
       (use ent2 [of "exampleState\<lparr>entryID := 4\<rparr>"] ds in \<open>simp_all add: ex\<close>)
  have g: "checkValidDest exampleEnv (exampleState\<lparr>entryID := 1, destPos := 1\<rparr>) (Some exampleCoinbaseDest)
        = Ret (Some ErrMismatchedPosition)"
    by (subst B [where ref' = 2 and v' = btm50 and a' = 255 and e' = "EMux exampleMux"
          and src' = exampleMuxSource and r' = 1 and sv = btm50 and sa = 255])
       (use ent2 [of "exampleState\<lparr>entryID := 1, destPos := 1\<rparr>"] ds in \<open>simp_all add: ex\<close>)
  have h: "checkValidDest exampleEnv (exampleState\<lparr>entryID := 1\<rparr>)
        (Some (exampleCoinbaseDest\<lparr>dst_Value := Some \<lparr>AssetId = Some 7, Amount = 50\<rparr>\<rparr>))
        = Ret (Some ErrMismatchedValue)"
    by (subst B [where ref' = 2 and v' = "\<lparr>AssetId = Some 7, Amount = 50\<rparr>" and a' = 7
          and e' = "EMux exampleMux" and src' = exampleMuxSource and r' = 1 and sv = btm50 and sa = 255])
       (use ent2 [of "exampleState\<lparr>entryID := 1\<rparr>"] ds in \<open>simp_all add: ex\<close>)
  have i: "checkValidDest exampleEnv (exampleState\<lparr>entryID := 1, destPos := src_Position exampleMuxSource\<rparr>)
        (Some exampleCoinbaseDest) = Ret None"
  proof -
    have "\<exists>ref e dest. src_Ref exampleMuxSource = Some ref \<and> Entries (tx ?vs) ref = Some e
           \<and> srcDest e (src_Position exampleMuxSource) = Inr (Some dest)
           \<and> checkValidDest exampleEnv (?vs\<lparr>entryID := ref, destPos := src_Position exampleMuxSource\<rparr>)
                 (Some dest) = Ret None"
      by (rule C [where cur = "EMux exampleMux" and n = "Suc 0" and s = exampleShared
            and ?s1.0 = exampleAfterCoinbase])
         (use ent2 [of ?vs] ds a in \<open>simp add: exampleState_def\<close>)
    then obtain ref e dest where x: "src_Ref exampleMuxSource = Some ref" "Entries (tx ?vs) ref = Some e"
        "srcDest e (src_Position exampleMuxSource) = Inr (Some dest)"
        "checkValidDest exampleEnv (?vs\<lparr>entryID := ref, destPos := src_Position exampleMuxSource\<rparr>) (Some dest) = Ret None"
      by blast
    from x(1) have r1: "ref = 1" by (simp add: exampleMuxSource_def)
    with x(2) have e1: "e = ?cb" by (simp add: exampleState_def exampleTx_def)
    with x(3) sd have "dest = exampleCoinbaseDest" by (simp add: exampleMuxSource_def)
    with x(4) r1 show ?thesis by simp
  qed
  have a': "checkValidSrc exampleEnv ?rec ?vs exampleShared (Some exampleMuxSource)
      = Some (Ret (None, exampleAfterCoinbase))"
    by (rule D [where cur = "EMux exampleMux" and ref = 1 and e = ?cb and dest = exampleCoinbaseDest])
       (use ent1 [of ?vs] ent2 [of ?vs] ds sd run2 i in \<open>simp add: ex\<close>)
  show ?thesis using a' b c d e f g h i by simp
qed

section \<open>Value conservation in a mux\<close>



























section \<open>The bound on a single amount\<close>










section \<open>Signing\<close>

lemma signLoop_skip:
  assumes "i < length keys" and "length keys \<le> length sigs"
    and "\<not> signable sg xprv keys sigs i"
  shows "signLoop sg tpl index xprv i (drop i keys) sigs
       = signLoop sg tpl index xprv (Suc i) (drop (Suc i) keys) sigs"
proof -
  have dr: "drop i keys = keys ! i # drop (Suc i) keys"
    using assms(1) by (simp add: Cons_nth_drop_Suc)
  have inr: "\<not> length sigs \<le> i" using assms(1,2) by simp
  show ?thesis
    using assms(1,3) inr unfolding dr signable_def by simp
qed

lemma signLoop_hit:
  assumes "length keys \<le> length sigs" and "signable sg xprv keys sigs i"
  shows "signLoop sg tpl index xprv i (drop i keys) sigs
       = Ret (sigs[i := Some (xprvSign sg xprv (tplHash sg tpl index))])"
proof -
  have lt: "i < length keys" using assms(2) by (simp add: signable_def)
  have dr: "drop i keys = keys ! i # drop (Suc i) keys"
    using lt by (simp add: Cons_nth_drop_Suc)
  have inr: "\<not> length sigs \<le> i" using lt assms(1) by simp
  show ?thesis
    using assms(2) inr unfolding dr signable_def by (simp add: Let_def)
qed

lemma signLoop_none:
  assumes "length keys \<le> length sigs"
  shows "i \<le> length keys \<Longrightarrow> (\<And>j. i \<le> j \<Longrightarrow> \<not> signable sg xprv keys sigs j)
     \<Longrightarrow> signLoop sg tpl index xprv i (drop i keys) sigs = Ret sigs"
proof (induction "length keys - i" arbitrary: i)
  case 0
  then show ?case by simp
next
  case (Suc n)
  have lt: "i < length keys" using Suc.hyps(2) by simp
  have "signLoop sg tpl index xprv i (drop i keys) sigs
       = signLoop sg tpl index xprv (Suc i) (drop (Suc i) keys) sigs"
    by (rule signLoop_skip [OF lt assms]) (rule Suc.prems(2), simp)
  also have "\<dots> = Ret sigs"
  proof (rule Suc.hyps(1))
    show "n = length keys - Suc i" using Suc.hyps(2) by simp
    show "Suc i \<le> length keys" using lt by simp
    show "\<not> signable sg xprv keys sigs j" if "Suc i \<le> j" for j
      using that by (intro Suc.prems(2)) simp
  qed
  finally show ?case .
qed

lemma signLoop_first:
  assumes "length keys \<le> length sigs" and "signable sg xprv keys sigs k"
  shows "i \<le> k \<Longrightarrow> (\<And>j. i \<le> j \<Longrightarrow> j < k \<Longrightarrow> \<not> signable sg xprv keys sigs j)
     \<Longrightarrow> signLoop sg tpl index xprv i (drop i keys) sigs
       = Ret (sigs[k := Some (xprvSign sg xprv (tplHash sg tpl index))])"
proof (induction "k - i" arbitrary: i)
  case 0
  then have "i = k" by simp
  then show ?case using signLoop_hit [OF assms] by simp
next
  case (Suc n)
  have ik: "i < k" using Suc.hyps(2) by simp
  have kl: "k < length keys" using assms(2) by (simp add: signable_def)
  have lt: "i < length keys" using ik kl by simp
  have "signLoop sg tpl index xprv i (drop i keys) sigs
       = signLoop sg tpl index xprv (Suc i) (drop (Suc i) keys) sigs"
    by (rule signLoop_skip [OF lt assms(1)]) (rule Suc.prems(2), simp, rule ik)
  also have "\<dots> = Ret (sigs[k := Some (xprvSign sg xprv (tplHash sg tpl index))])"
  proof (rule Suc.hyps(1))
    show "n = k - Suc i" using Suc.hyps(2) by simp
    show "Suc i \<le> k" using ik by simp
    show "\<not> signable sg xprv keys sigs j" if "Suc i \<le> j" "j < k" for j
      using that by (intro Suc.prems(2)) simp_all
  qed
  finally show ?case .
qed

lemma padSigs_Sigs:
  "Sigs (padSigs sw) = Sigs sw @ replicate (length (Keys sw) - length (Sigs sw)) None"
  by (simp add: padSigs_def)

lemma padSigs_Keys: "Keys (padSigs sw) = Keys sw"
  by (simp add: padSigs_def)

lemma padSigs_update: "(padSigs sw)\<lparr>Sigs := sigs\<rparr> = sw\<lparr>Sigs := sigs\<rparr>"
  by (simp add: padSigs_def)

lemma Sign_unfold:
  "Sign sg sw tpl index xprv =
      (case signLoop sg tpl index xprv 0 (drop 0 (Keys sw)) (Sigs (padSigs sw)) of
         Panic \<Rightarrow> Panic | Ret sigs \<Rightarrow> Ret (None, sw\<lparr>Sigs := sigs\<rparr>))"
  by (simp add: Sign_def Let_def padSigs_Keys padSigs_update split: res.splits)

text \<open>
  C10. \<open>Sign\<close> always returns a nil error and never panics. It leaves \<open>Keys\<close> and \<open>Quorum\<close>
  as they are; \<open>Sigs\<close> is padded with empty slots up to the number of keys, and at most one
  slot changes: the first slot that is empty and whose key matches the signing key receives
  the signature; when no slot qualifies nothing else changes.
\<close>

theorem Sign_frame:
  fixes sg :: "'tpl signing"
  shows "\<exists>sigs'. Sign sg sw tpl index xprv = Ret (None, sw\<lparr>Sigs := sigs'\<rparr>)
     \<and> length sigs' = max (length (Sigs sw)) (length (Keys sw))
     \<and> ((\<forall>j. \<not> signable sg xprv (Keys sw) (Sigs (padSigs sw)) j) \<longrightarrow> sigs' = Sigs (padSigs sw))
     \<and> (\<forall>i. signable sg xprv (Keys sw) (Sigs (padSigs sw)) i
              \<and> (\<forall>j<i. \<not> signable sg xprv (Keys sw) (Sigs (padSigs sw)) j)
            \<longrightarrow> sigs' = (Sigs (padSigs sw))[i := Some (xprvSign sg xprv (tplHash sg tpl index))])
     \<and> Sigs (padSigs sw) = Sigs sw @ replicate (length (Keys sw) - length (Sigs sw)) None"
proof -
  let ?P = "Sigs (padSigs sw)"
  let ?sig = "Some (xprvSign sg xprv (tplHash sg tpl index))"
  let ?S = "signable sg xprv (Keys sw) ?P"
  have len: "length (Keys sw) \<le> length ?P" by (simp add: padSigs_Sigs)
  have lenP: "length ?P = max (length (Sigs sw)) (length (Keys sw))" by (simp add: padSigs_Sigs)
  show ?thesis
  proof (cases "\<exists>j. ?S j")
    case False
    then have no: "\<And>j. \<not> ?S j" by simp
    have "signLoop sg tpl index xprv 0 (drop 0 (Keys sw)) ?P = Ret ?P"
      by (rule signLoop_none [OF len]) (simp, rule no)
    then have "Sign sg sw tpl index xprv = Ret (None, sw\<lparr>Sigs := ?P\<rparr>)"
      by (simp only: Sign_unfold res.case)
    then show ?thesis
      using no lenP padSigs_Sigs [of sw] by (intro exI [of _ ?P]) simp
  next
    case True
    define k where "k = (LEAST j. ?S j)"
    have k1: "?S k" using True unfolding k_def by (auto intro: LeastI)
    have k2: "\<not> ?S j" if "j < k" for j
      using that unfolding k_def by (rule not_less_Least)
    have "signLoop sg tpl index xprv 0 (drop 0 (Keys sw)) ?P = Ret (?P[k := ?sig])"
      by (rule signLoop_first [OF len k1]) (simp, rule k2)
    then have run: "Sign sg sw tpl index xprv = Ret (None, sw\<lparr>Sigs := ?P[k := ?sig]\<rparr>)"
      by (simp only: Sign_unfold res.case)
    have uniq: "i = k" if "?S i" "\<forall>j<i. \<not> ?S j" for i
    proof (rule ccontr)
      assume "i \<noteq> k"
      then consider "i < k" | "k < i" by arith
      then show False
      proof cases
        case 1 then show False using k2 that(1) by blast
      next
        case 2 then show False using that(2) k1 by blast
      qed
    qed
    have c4: "\<forall>i. ?S i \<and> (\<forall>j<i. \<not> ?S j) \<longrightarrow> ?P[k := ?sig] = ?P[i := ?sig]"
      using uniq by blast
    have c3: "(\<forall>j. \<not> ?S j) \<longrightarrow> ?P[k := ?sig] = ?P"
      using k1 by blast
    have c2: "length (?P[k := ?sig]) = max (length (Sigs sw)) (length (Keys sw))"
      using lenP by simp
    show ?thesis
      by (rule exI [of _ "?P[k := ?sig]"]) (intro conjI run c2 c3 c4 padSigs_Sigs)
  qed
qed

theorem Sign_frame_witness:
  "signable exampleSigning [2] (Keys exampleWitness) (Sigs (padSigs exampleWitness)) 1
   \<and> \<not> signable exampleSigning [2] (Keys exampleWitness) (Sigs (padSigs exampleWitness)) 0
   \<and> Sign exampleSigning exampleWitness 0 0 [2]
        = Ret (None, exampleWitness\<lparr>Sigs := [None, Some [2, 7]]\<rparr>)
   \<and> Sign exampleSigning exampleWitness 0 0 [3]
        = Ret (None, exampleWitness\<lparr>Sigs := [None, None]\<rparr>)"
proof -
  have P: "Sigs (padSigs exampleWitness) = [None, None]"
    by (simp add: padSigs_def exampleWitness_def)
  have K: "length (Keys exampleWitness) = 2"
    by (simp add: exampleWitness_def)
  have s1: "signable exampleSigning [2] (Keys exampleWitness) (Sigs (padSigs exampleWitness)) 1"
    unfolding P by (simp add: signable_def exampleWitness_def exampleSigning_def bytesOf_def)
  have s0: "\<forall>j<1. \<not> signable exampleSigning [2] (Keys exampleWitness) (Sigs (padSigs exampleWitness)) j"
    unfolding P by (simp add: signable_def exampleWitness_def exampleSigning_def bytesOf_def)
  have n3: "\<forall>j. \<not> signable exampleSigning [3] (Keys exampleWitness) (Sigs (padSigs exampleWitness)) j"
    unfolding P by (auto simp: signable_def exampleWitness_def exampleSigning_def bytesOf_def less_Suc_eq numeral_2_eq_2 nth_Cons' split: if_splits)
  obtain sigs' where a: "Sign exampleSigning exampleWitness 0 0 [2] = Ret (None, exampleWitness\<lparr>Sigs := sigs'\<rparr>)"
    and b: "sigs' = (Sigs (padSigs exampleWitness))[1 := Some (xprvSign exampleSigning [2] (tplHash exampleSigning 0 0))]"
    using Sign_frame [of exampleSigning exampleWitness 0 0 "[2]"] s1 s0 by blast
  have r1: "Sign exampleSigning exampleWitness 0 0 [2] = Ret (None, exampleWitness\<lparr>Sigs := [None, Some [2, 7]]\<rparr>)"
    using a b unfolding P by (simp add: exampleSigning_def)
  obtain sigs'' where c: "Sign exampleSigning exampleWitness 0 0 [3] = Ret (None, exampleWitness\<lparr>Sigs := sigs''\<rparr>)"
    and d: "sigs'' = Sigs (padSigs exampleWitness)"
    using Sign_frame [of exampleSigning exampleWitness 0 0 "[3]"] n3 by blast
  have r2: "Sign exampleSigning exampleWitness 0 0 [3] = Ret (None, exampleWitness\<lparr>Sigs := [None, None]\<rparr>)"
    using c d unfolding P by simp
  show ?thesis using s1 s0 r1 r2 by simp
qed

end
